theory Spec2Isabelle
  imports Main "HOL-Library.Word"
begin

section \<open>Go strings\<close>

text \<open>
  A Go string is a sequence of bytes, modelled as \<^typ>\<open>string\<close>. The functions of the
  \<^verbatim>\<open>strings\<close> package that \<^verbatim>\<open>signer.go\<close> calls read the bytes as UTF-8:
  \<^verbatim>\<open>TrimSpace\<close> and \<^verbatim>\<open>Fields\<close> take white space as \<^verbatim>\<open>unicode.IsSpace\<close> has it, and
  \<^verbatim>\<open>ToLower\<close> maps every code point by \<^verbatim>\<open>unicode.ToLower\<close>. A code point (a
  \<^verbatim>\<open>rune\<close>, an \<^verbatim>\<open>int32\<close>) is an integer here: no operation on it leaves the 32 bits.
\<close>

definition RuneError :: int where
  "RuneError = 0xFFFD"

text \<open>
  \<^verbatim>\<open>utf8.DecodeRuneInString\<close>: the first code point of the string and its width in
  bytes. A byte that does not start a well-formed sequence is \<^verbatim>\<open>RuneError\<close> of width 1;
  the second byte of a sequence has a range that depends on the first (no overlong form,
  no surrogate, nothing above \<^verbatim>\<open>U+10FFFF\<close>).
\<close>

definition between :: "int \<Rightarrow> int \<Rightarrow> char \<Rightarrow> bool" where
  "between lo hi c = (lo \<le> of_char c \<and> (of_char c :: int) \<le> hi)"

definition acceptLo :: "int \<Rightarrow> int" where
  "acceptLo s0 = (if s0 = 0xE0 then 0xA0 else if s0 = 0xF0 then 0x90 else 0x80)"

definition acceptHi :: "int \<Rightarrow> int" where
  "acceptHi s0 = (if s0 = 0xED then 0x9F else if s0 = 0xF4 then 0x8F else 0xBF)"

fun DecodeRuneInString :: "string \<Rightarrow> int \<times> nat" where
  "DecodeRuneInString [] = (RuneError, 0)"
| "DecodeRuneInString (c0 # s) =
     (if (of_char c0 :: int) < 0x80 then (of_char c0, 1)
      else if (of_char c0 :: int) < 0xC2 \<or> 0xF4 < (of_char c0 :: int) then (RuneError, 1)
      else if (of_char c0 :: int) < 0xE0 then
        (case s of
           c1 # s' \<Rightarrow>
             if between 0x80 0xBF c1
             then (of_char c0 mod 32 * 64 + of_char c1 mod 64, 2)
             else (RuneError, 1)
         | [] \<Rightarrow> (RuneError, 1))
      else if (of_char c0 :: int) < 0xF0 then
        (case s of
           c1 # c2 # s' \<Rightarrow>
             if between (acceptLo (of_char c0)) (acceptHi (of_char c0)) c1 \<and> between 0x80 0xBF c2
             then (of_char c0 mod 16 * 4096 + of_char c1 mod 64 * 64 + of_char c2 mod 64, 3)
             else (RuneError, 1)
         | _ \<Rightarrow> (RuneError, 1))
      else
        (case s of
           c1 # c2 # c3 # s' \<Rightarrow>
             if between (acceptLo (of_char c0)) (acceptHi (of_char c0)) c1 \<and> between 0x80 0xBF c2 \<and>
                between 0x80 0xBF c3
             then (of_char c0 mod 8 * 262144 + of_char c1 mod 64 * 4096 + of_char c2 mod 64 * 64 +
                   of_char c3 mod 64, 4)
             else (RuneError, 1)
         | _ \<Rightarrow> (RuneError, 1)))"

text \<open>
  \<^verbatim>\<open>utf8.DecodeLastRuneInString\<close>: the last code point and its width. It steps back over
  at most three bytes to a byte that can start a sequence (\<^verbatim>\<open>RuneStart\<close>) and decodes
  from there; the result counts only when it ends where the string ends.
\<close>

definition RuneStart :: "char \<Rightarrow> bool" where
  "RuneStart c = (\<not> between 0x80 0xBF c)"

definition DecodeLastRuneInString :: "string \<Rightarrow> int \<times> nat" where
  "DecodeLastRuneInString s =
     (if s = [] then (RuneError, 0)
      else if (of_char (last s) :: int) < 0x80 then (of_char (last s), 1)
      else
        (let lim = length s - 4;
             start = (case find (\<lambda>i. RuneStart (s ! i)) (rev [lim..<length s - 1]) of
                        Some i \<Rightarrow> i
                      | None \<Rightarrow> lim - 1)
         in case DecodeRuneInString (drop start s) of
              (r, width) \<Rightarrow> if start + width \<noteq> length s then (RuneError, 1) else (r, width)))"

text \<open>
  \<^verbatim>\<open>unicode.IsSpace\<close>: the code points with the Unicode property White_Space.
\<close>

definition IsSpace :: "int \<Rightarrow> bool" where
  "IsSpace r =
     (r \<in> set [0x09, 0x0A, 0x0B, 0x0C, 0x0D, 0x20, 0x85, 0xA0, 0x1680, 0x2028, 0x2029, 0x202F,
              0x205F, 0x3000]
      \<or> (0x2000 \<le> r \<and> r \<le> 0x200A))"

text \<open>
  \<^verbatim>\<open>strings.TrimSpace\<close> is \<^verbatim>\<open>TrimFunc(s, unicode.IsSpace)\<close>: the leading white space
  is found by decoding forwards, the trailing white space by decoding backwards.
\<close>

function TrimLeftSpace :: "string \<Rightarrow> string" where
  "TrimLeftSpace s =
     (if s = [] then []
      else case DecodeRuneInString s of
             (r, width) \<Rightarrow> if IsSpace r then TrimLeftSpace (drop width s) else s)"
  by pat_completeness auto
termination
proof (relation "measure length")
  show "wf (measure length)" by simp
next
  fix s :: string and r width
  assume ne: "s \<noteq> []" and d: "(r, width) = DecodeRuneInString s"
  have "0 < snd (DecodeRuneInString s)"
    using ne by (cases s) (simp_all split: list.split)
  then have "0 < width"
    using d by (metis snd_conv)
  then show "(drop width s, s) \<in> measure length"
    using ne by simp_all
qed

declare TrimLeftSpace.simps [simp del]

function TrimRightSpace :: "string \<Rightarrow> string" where
  "TrimRightSpace s =
     (if s = [] then []
      else case DecodeLastRuneInString s of
             (r, width) \<Rightarrow> if IsSpace r then TrimRightSpace (take (length s - width) s) else s)"
  by pat_completeness auto
termination
proof (relation "measure length")
  show "wf (measure length)" by simp
next
  fix s :: string and r width
  assume ne: "s \<noteq> []" and "(r, width) = DecodeLastRuneInString s"
  then have d: "DecodeLastRuneInString s = (r, width)" by simp
  have "0 < width"
  proof (cases "(of_char (last s) :: int) < 0x80")
    case True
    then show ?thesis using ne d by (simp add: DecodeLastRuneInString_def)
  next
    case False
    define lim where "lim = length s - 4"
    define start where
      "start = (case find (\<lambda>i. RuneStart (s ! i)) (rev [lim..<length s - 1]) of
                  Some i \<Rightarrow> i | None \<Rightarrow> lim - 1)"
    have "start < length s"
    proof (cases "find (\<lambda>i. RuneStart (s ! i)) (rev [lim..<length s - 1])")
      case None
      then show ?thesis using ne by (simp add: start_def lim_def)
    next
      case (Some i)
      then have "i \<in> set (rev [lim..<length s - 1])"
        by (metis find_Some_iff nth_mem)
      then show ?thesis using Some by (auto simp: start_def)
    qed
    then have "drop start s \<noteq> []" by simp
    then have "0 < snd (DecodeRuneInString (drop start s))"
      by (cases "drop start s") (simp_all split: list.split)
    moreover have "DecodeLastRuneInString s =
        (case DecodeRuneInString (drop start s) of
           (r, width) \<Rightarrow> if start + width \<noteq> length s then (RuneError, 1) else (r, width))"
      unfolding start_def lim_def using ne False by (simp add: DecodeLastRuneInString_def Let_def)
    ultimately show ?thesis
      using d by (cases "DecodeRuneInString (drop start s)") (auto split: if_splits)
  qed
  then show "(take (length s - width) s, s) \<in> measure length"
    using ne by simp
qed

declare TrimRightSpace.simps [simp del]

definition TrimSpace :: "string \<Rightarrow> string" where
  "TrimSpace s = TrimRightSpace (TrimLeftSpace s)"

text \<open>
  \<^verbatim>\<open>strings.Fields\<close> is \<^verbatim>\<open>FieldsFunc(s, unicode.IsSpace)\<close>: the maximal runs of code
  points that are not white space. \<open>field\<close> holds the bytes of the run being read.
\<close>

function FieldsFrom :: "string \<Rightarrow> string \<Rightarrow> string list" where
  "FieldsFrom s field =
     (if s = [] then (if field = [] then [] else [field])
      else case DecodeRuneInString s of
             (r, width) \<Rightarrow>
               if IsSpace r
               then (if field = [] then FieldsFrom (drop width s) []
                     else field # FieldsFrom (drop width s) [])
               else FieldsFrom (drop width s) (field @ take width s))"
  by pat_completeness auto
termination
proof (relation "measure (\<lambda>(s, field). length s)")
  show "wf (measure (\<lambda>(s, field). length s))" by simp
next
  fix s field :: string and r width
  assume ne: "s \<noteq> []" and d: "(r, width) = DecodeRuneInString s"
  have "0 < snd (DecodeRuneInString s)"
    using ne by (cases s) (simp_all split: list.split)
  then have "0 < width"
    using d by (metis snd_conv)
  then show "((drop width s, []), (s, field)) \<in> measure (\<lambda>(s, field). length s)" and
    "((drop width s, []), (s, field)) \<in> measure (\<lambda>(s, field). length s)" and
    "((drop width s, field @ take width s), (s, field)) \<in> measure (\<lambda>(s, field). length s)"
    using ne by simp_all
qed

declare FieldsFrom.simps [simp del]

definition Fields :: "string \<Rightarrow> string list" where
  "Fields s = FieldsFrom s []"

text \<open>
  \<^verbatim>\<open>unicode.ToLower\<close>. Below \<^verbatim>\<open>U+0080\<close> it maps \<^verbatim>\<open>A-Z\<close>; above, it is the simple
  lower-case mapping of the Unicode character database, given here (for Unicode 14.0.0)
  as ranges \<open>(lo, hi, stride, lower)\<close>: every \<open>stride\<close>-th code point from \<open>lo\<close> to \<open>hi\<close>
  has a lower case, and that of \<open>lo\<close> is \<open>lower\<close>. Two code points above \<^verbatim>\<open>U+007F\<close>
  lower to ASCII letters: \<^verbatim>\<open>U+0130\<close> to \<^verbatim>\<open>i\<close> and \<^verbatim>\<open>U+212A\<close> to \<^verbatim>\<open>k\<close>.
\<close>

definition lowerRanges :: "(int \<times> int \<times> int \<times> int) list" where
  "lowerRanges =
     [(192, 214, 1, 224), (216, 222, 1, 248), (256, 302, 2, 257), (304, 304, 1, 105),
      (306, 310, 2, 307), (313, 327, 2, 314), (330, 374, 2, 331), (376, 376, 1, 255),
      (377, 381, 2, 378), (385, 385, 1, 595), (386, 388, 2, 387), (390, 390, 1, 596),
      (391, 391, 1, 392), (393, 394, 1, 598), (395, 395, 1, 396), (398, 398, 1, 477),
      (399, 399, 1, 601), (400, 400, 1, 603), (401, 401, 1, 402), (403, 403, 1, 608),
      (404, 404, 1, 611), (406, 406, 1, 617), (407, 407, 1, 616), (408, 408, 1, 409),
      (412, 412, 1, 623), (413, 413, 1, 626), (415, 415, 1, 629), (416, 420, 2, 417),
      (422, 422, 1, 640), (423, 423, 1, 424), (425, 425, 1, 643), (428, 428, 1, 429),
      (430, 430, 1, 648), (431, 431, 1, 432), (433, 434, 1, 650), (435, 437, 2, 436),
      (439, 439, 1, 658), (440, 440, 1, 441), (444, 444, 1, 445), (452, 452, 1, 454),
      (453, 453, 1, 454), (455, 455, 1, 457), (456, 456, 1, 457), (458, 458, 1, 460),
      (459, 475, 2, 460), (478, 494, 2, 479), (497, 497, 1, 499), (498, 500, 2, 499),
      (502, 502, 1, 405), (503, 503, 1, 447), (504, 542, 2, 505), (544, 544, 1, 414),
      (546, 562, 2, 547), (570, 570, 1, 11365), (571, 571, 1, 572), (573, 573, 1, 410),
      (574, 574, 1, 11366), (577, 577, 1, 578), (579, 579, 1, 384), (580, 580, 1, 649),
      (581, 581, 1, 652), (582, 590, 2, 583), (880, 882, 2, 881), (886, 886, 1, 887),
      (895, 895, 1, 1011), (902, 902, 1, 940), (904, 906, 1, 941), (908, 908, 1, 972),
      (910, 911, 1, 973), (913, 929, 1, 945), (931, 939, 1, 963), (975, 975, 1, 983),
      (984, 1006, 2, 985), (1012, 1012, 1, 952), (1015, 1015, 1, 1016),
      (1017, 1017, 1, 1010), (1018, 1018, 1, 1019), (1021, 1023, 1, 891),
      (1024, 1039, 1, 1104), (1040, 1071, 1, 1072), (1120, 1152, 2, 1121),
      (1162, 1214, 2, 1163), (1216, 1216, 1, 1231), (1217, 1229, 2, 1218),
      (1232, 1326, 2, 1233), (1329, 1366, 1, 1377), (4256, 4293, 1, 11520),
      (4295, 4295, 1, 11559), (4301, 4301, 1, 11565), (5024, 5103, 1, 43888),
      (5104, 5109, 1, 5112), (7312, 7354, 1, 4304), (7357, 7359, 1, 4349),
      (7680, 7828, 2, 7681), (7838, 7838, 1, 223), (7840, 7934, 2, 7841),
      (7944, 7951, 1, 7936), (7960, 7965, 1, 7952), (7976, 7983, 1, 7968),
      (7992, 7999, 1, 7984), (8008, 8013, 1, 8000), (8025, 8031, 2, 8017),
      (8040, 8047, 1, 8032), (8072, 8079, 1, 8064), (8088, 8095, 1, 8080),
      (8104, 8111, 1, 8096), (8120, 8121, 1, 8112), (8122, 8123, 1, 8048),
      (8124, 8124, 1, 8115), (8136, 8139, 1, 8050), (8140, 8140, 1, 8131),
      (8152, 8153, 1, 8144), (8154, 8155, 1, 8054), (8168, 8169, 1, 8160),
      (8170, 8171, 1, 8058), (8172, 8172, 1, 8165), (8184, 8185, 1, 8056),
      (8186, 8187, 1, 8060), (8188, 8188, 1, 8179), (8486, 8486, 1, 969),
      (8490, 8490, 1, 107), (8491, 8491, 1, 229), (8498, 8498, 1, 8526),
      (8544, 8559, 1, 8560), (8579, 8579, 1, 8580), (9398, 9423, 1, 9424),
      (11264, 11311, 1, 11312), (11360, 11360, 1, 11361), (11362, 11362, 1, 619),
      (11363, 11363, 1, 7549), (11364, 11364, 1, 637), (11367, 11371, 2, 11368),
      (11373, 11373, 1, 593), (11374, 11374, 1, 625), (11375, 11375, 1, 592),
      (11376, 11376, 1, 594), (11378, 11378, 1, 11379), (11381, 11381, 1, 11382),
      (11390, 11391, 1, 575), (11392, 11490, 2, 11393), (11499, 11501, 2, 11500),
      (11506, 11506, 1, 11507), (42560, 42604, 2, 42561), (42624, 42650, 2, 42625),
      (42786, 42798, 2, 42787), (42802, 42862, 2, 42803), (42873, 42875, 2, 42874),
      (42877, 42877, 1, 7545), (42878, 42886, 2, 42879), (42891, 42891, 1, 42892),
      (42893, 42893, 1, 613), (42896, 42898, 2, 42897), (42902, 42920, 2, 42903),
      (42922, 42922, 1, 614), (42923, 42923, 1, 604), (42924, 42924, 1, 609),
      (42925, 42925, 1, 620), (42926, 42926, 1, 618), (42928, 42928, 1, 670),
      (42929, 42929, 1, 647), (42930, 42930, 1, 669), (42931, 42931, 1, 43859),
      (42932, 42946, 2, 42933), (42948, 42948, 1, 42900), (42949, 42949, 1, 642),
      (42950, 42950, 1, 7566), (42951, 42953, 2, 42952), (42960, 42960, 1, 42961),
      (42966, 42968, 2, 42967), (42997, 42997, 1, 42998), (65313, 65338, 1, 65345),
      (66560, 66599, 1, 66600), (66736, 66771, 1, 66776), (66928, 66938, 1, 66967),
      (66940, 66954, 1, 66979), (66956, 66962, 1, 66995), (66964, 66965, 1, 67003),
      (68736, 68786, 1, 68800), (71840, 71871, 1, 71872), (93760, 93791, 1, 93792),
      (125184, 125217, 1, 125218)]"

definition unicode_ToLower :: "int \<Rightarrow> int" where
  "unicode_ToLower r =
     (if r < 0x80 then (if 0x41 \<le> r \<and> r \<le> 0x5A then r + 32 else r)
      else case find (\<lambda>(lo, hi, stride, lower). lo \<le> r \<and> r \<le> hi \<and> (r - lo) mod stride = 0)
                  lowerRanges of
             None \<Rightarrow> r
           | Some (lo, hi, stride, lower) \<Rightarrow> lower + (r - lo))"

text \<open>
  \<^verbatim>\<open>utf8.AppendRune\<close>, with which \<^verbatim>\<open>strings.Map\<close> writes a code point: a surrogate or
  a value outside \<^verbatim>\<open>0 .. U+10FFFF\<close> is written as \<^verbatim>\<open>RuneError\<close>.
\<close>

definition AppendRune :: "int \<Rightarrow> string" where
  "AppendRune r =
     (if r < 0 \<or> 0x10FFFF < r \<or> (0xD800 \<le> r \<and> r \<le> 0xDFFF) then [CHR 0xEF, CHR 0xBF, CHR 0xBD]
      else if r < 0x80 then [char_of r]
      else if r < 0x800 then [char_of (0xC0 + r div 64), char_of (0x80 + r mod 64)]
      else if r < 0x10000
        then [char_of (0xE0 + r div 4096), char_of (0x80 + r div 64 mod 64), char_of (0x80 + r mod 64)]
      else [char_of (0xF0 + r div 262144), char_of (0x80 + r div 4096 mod 64),
            char_of (0x80 + r div 64 mod 64), char_of (0x80 + r mod 64)])"

text \<open>
  \<^verbatim>\<open>strings.ToLower\<close> is \<^verbatim>\<open>Map(unicode.ToLower, s)\<close>: each code point of the string, an
  ill-formed byte being \<^verbatim>\<open>RuneError\<close>, is mapped and written out. (For a string of ASCII
  bytes the package has a shorter way to the same result.)
\<close>

function ToLower :: "string \<Rightarrow> string" where
  "ToLower s =
     (if s = [] then []
      else case DecodeRuneInString s of
             (r, width) \<Rightarrow> AppendRune (unicode_ToLower r) @ ToLower (drop width s))"
  by pat_completeness auto
termination
proof (relation "measure length")
  show "wf (measure length)" by simp
next
  fix s :: string and r width
  assume ne: "s \<noteq> []" and d: "(r, width) = DecodeRuneInString s"
  have "0 < snd (DecodeRuneInString s)"
    using ne by (cases s) (simp_all split: list.split)
  then have "0 < width"
    using d by (metis snd_conv)
  then show "(drop width s, s) \<in> measure length"
    using ne by simp_all
qed

declare ToLower.simps [simp del]

text \<open>
  The lower case of a byte as ASCII has it: \<^verbatim>\<open>A-Z\<close> to \<^verbatim>\<open>a-z\<close>, any other byte
  itself.
\<close>

definition lowerByte :: "char \<Rightarrow> char" where
  "lowerByte c =
     (case map_of (zip ''ABCDEFGHIJKLMNOPQRSTUVWXYZ'' ''abcdefghijklmnopqrstuvwxyz'') c of
        None \<Rightarrow> c
      | Some d \<Rightarrow> d)"

text \<open>\<^verbatim>\<open>strings.Split(s, sep)\<close> for a one-byte separator: never the empty list.\<close>

fun Split :: "string \<Rightarrow> char \<Rightarrow> string list" where
  "Split [] sep = [[]]"
| "Split (c # cs) sep =
     (if c = sep then [] # Split cs sep
      else (case Split cs sep of
              [] \<Rightarrow> [[c]]
            | p # ps \<Rightarrow> (c # p) # ps))"

text \<open>\<^verbatim>\<open>strings.Join(values, sep)\<close>.\<close>

fun Join :: "string list \<Rightarrow> string \<Rightarrow> string" where
  "Join [] sep = []"
| "Join [v] sep = v"
| "Join (v # w # vs) sep = v @ sep @ Join (w # vs) sep"

section \<open>Content-Security-Policy rewriting\<close>

text \<open>The directives that \<^verbatim>\<open>MutateFetchedContentSecurityPolicy\<close> passes through.\<close>

definition preservedDirectives :: "string list" where
  "preservedDirectives =
     [''base-uri'', ''block-all-mixed-content'', ''font-src'', ''form-action'',
      ''manifest-src'', ''referrer'', ''upgrade-insecure-requests'']"

text \<open>The string written after the loop (lines 245-258 of \<^verbatim>\<open>signer.go\<close>).\<close>

definition cspSuffix :: string where
  "cspSuffix =
     ''default-src * blob: data:;'' @
     ''report-uri https://csp.withgoogle.com/csp/amp;'' @
     ''script-src blob: https://cdn.ampproject.org/rtv/ '' @
     ''https://cdn.ampproject.org/v0.js '' @
     ''https://cdn.ampproject.org/v0/ '' @
     ''https://cdn.ampproject.org/lts/ '' @
     ''https://cdn.ampproject.org/viewer/;'' @
     ''style-src 'unsafe-inline' https://cdn.materialdesignicons.com '' @
     ''https://cloud.typography.com https://fast.fonts.net '' @
     ''https://fonts.googleapis.com https://maxcdn.bootstrapcdn.com '' @
     ''https://p.typekit.net https://pro.fontawesome.com '' @
     ''https://use.fontawesome.com https://use.typekit.net;'' @
     ''object-src 'none'' @ [CHR 0x27]"

text \<open>
  The loop over the directive tokens; \<open>newCsp\<close> is the string builder. A token with no
  field is skipped (\<^verbatim>\<open>continue\<close>), a token whose lower-cased first field is a preserved
  directive is written trimmed and followed by \<^verbatim>\<open>;\<close>, any other token is dropped.
\<close>

fun mutateLoop :: "string list \<Rightarrow> string \<Rightarrow> string" where
  "mutateLoop [] newCsp = newCsp"
| "mutateLoop (directiveToken # rest) newCsp =
     (let trimmed = TrimSpace directiveToken;
          directiveParts = Fields trimmed
      in if length directiveParts = 0 then mutateLoop rest newCsp
         else let directiveName = ToLower (directiveParts ! 0)
              in if directiveName \<in> set preservedDirectives
                 then mutateLoop rest (newCsp @ trimmed @ '';'')
                 else mutateLoop rest newCsp)"

definition MutateFetchedContentSecurityPolicy :: "string \<Rightarrow> string" where
  "MutateFetchedContentSecurityPolicy fetched =
     mutateLoop (Split fetched (CHR '';'')) [] @ cspSuffix"

text \<open>
  The trimmed tokens of a policy that the loop writes out: those with a field whose
  first field lowers to a preserved directive.
\<close>

definition kept :: "string \<Rightarrow> bool" where
  "kept t = (Fields t \<noteq> [] \<and> ToLower (hd (Fields t)) \<in> set preservedDirectives)"

definition keptTokens :: "string \<Rightarrow> string list" where
  "keptTokens s = filter kept (map TrimSpace (Split s (CHR '';'')))"

subsection \<open>Reading a policy as the specification does\<close>

text \<open>
  Section 4.4 of the specification has: directive name matching is case-insensitive, and
  white-space splitting uses ASCII white space plus vertical tab; the comment in the loop
  says the same of the white space. Read so, the name of a directive token is what lies
  between its leading white-space bytes and the next one, with \<^verbatim>\<open>A-Z\<close> taken as
  \<^verbatim>\<open>a-z\<close> and every other byte as itself, and the directives of a policy are its
  \<^verbatim>\<open>;\<close>-separated tokens that have a name.
\<close>

definition asciiSpace :: "char \<Rightarrow> bool" where
  "asciiSpace c = (c \<in> set [CHR 0x09, CHR 0x0A, CHR 0x0B, CHR 0x0C, CHR 0x0D, CHR 0x20])"

definition asciiLower :: "string \<Rightarrow> string" where
  "asciiLower s = map lowerByte s"

definition specDirectiveName :: "string \<Rightarrow> string" where
  "specDirectiveName t =
     asciiLower (takeWhile (\<lambda>c. \<not> asciiSpace c) (dropWhile asciiSpace t))"

definition specDirectiveNames :: "string \<Rightarrow> string list" where
  "specDirectiveNames policy =
     filter (\<lambda>name. name \<noteq> []) (map specDirectiveName (Split policy (CHR '';'')))"

text \<open>The names of the five directives of the fixed suffix.\<close>

definition fixedNames :: "string list" where
  "fixedNames = [''default-src'', ''report-uri'', ''script-src'', ''style-src'', ''object-src'']"

text \<open>
  Two directive tokens with bytes above \<^verbatim>\<open>0x7f\<close>: \<^verbatim>\<open>block-all-mixed-content\<close> with
  the Kelvin sign \<^verbatim>\<open>U+212A\<close> (the bytes \<^verbatim>\<open>E2 84 AA\<close>) in the place of the
  \<^verbatim>\<open>k\<close>, and \<^verbatim>\<open>font-src\<close> with a no-break space \<^verbatim>\<open>U+00A0\<close> (the bytes
  \<^verbatim>\<open>C2 A0\<close>) before its value.
\<close>

definition kelvinDirective :: string where
  "kelvinDirective = ''bloc'' @ [CHR 0xE2, CHR 0x84, CHR 0xAA] @ ''-all-mixed-content''"

definition nbspDirective :: string where
  "nbspDirective = ''font-src'' @ [CHR 0xC2, CHR 0xA0] @ ''https://f.example''"

section \<open>HTTP headers\<close>

text \<open>
  \<^verbatim>\<open>http.Header\<close> is \<^verbatim>\<open>map[string][]string\<close>. Its methods canonicalize the key
  they are given; an indexing expression \<^verbatim>\<open>h[k]\<close> does not.
  \<^verbatim>\<open>http.CanonicalHeaderKey\<close> (Go's \<^verbatim>\<open>net/textproto\<close>) returns a key that holds a
  byte outside the token alphabet unchanged; otherwise the first letter and every letter
  after a hyphen become upper case and the other letters lower case.
\<close>

type_synonym header = "string \<rightharpoonup> string list"

definition validHeaderFieldByte :: "char \<Rightarrow> bool" where
  "validHeaderFieldByte c =
     (c \<in> set ''!#$%&'*+-.^_`|~0123456789abcdefghijklmnopqrstuvwxyzABCDEFGHIJKLMNOPQRSTUVWXYZ'')"

definition upperByte :: "char \<Rightarrow> char" where
  "upperByte c =
     (case map_of (zip ''abcdefghijklmnopqrstuvwxyz'' ''ABCDEFGHIJKLMNOPQRSTUVWXYZ'') c of
        None \<Rightarrow> c
      | Some d \<Rightarrow> d)"

fun canonicalLoop :: "string \<Rightarrow> bool \<Rightarrow> string" where
  "canonicalLoop [] upper = []"
| "canonicalLoop (c # cs) upper =
     (if upper then upperByte c # canonicalLoop cs (upperByte c = CHR ''-'')
      else lowerByte c # canonicalLoop cs (lowerByte c = CHR ''-''))"

definition CanonicalHeaderKey :: "string \<Rightarrow> string" where
  "CanonicalHeaderKey s = (if list_all validHeaderFieldByte s then canonicalLoop s True else s)"

definition Header_Get :: "header \<Rightarrow> string \<Rightarrow> string" where
  "Header_Get h key =
     (case h (CanonicalHeaderKey key) of
        None \<Rightarrow> ''''
      | Some [] \<Rightarrow> ''''
      | Some (v # vs) \<Rightarrow> v)"

definition Header_Set :: "header \<Rightarrow> string \<Rightarrow> string \<Rightarrow> header" where
  "Header_Set h key v = h(CanonicalHeaderKey key \<mapsto> [v])"

definition Header_Add :: "header \<Rightarrow> string \<Rightarrow> string \<Rightarrow> header" where
  "Header_Add h key v =
     h(CanonicalHeaderKey key \<mapsto>
        (case h (CanonicalHeaderKey key) of None \<Rightarrow> [v] | Some vs \<Rightarrow> vs @ [v]))"

definition Header_Del :: "header \<Rightarrow> string \<Rightarrow> header" where
  "Header_Del h key = h(CanonicalHeaderKey key := None)"

text \<open>Gets all values of the named header, joined on comma (lines 102-113).\<close>

definition GetJoined :: "header \<Rightarrow> string \<Rightarrow> string" where
  "GetJoined h name =
     (case h (CanonicalHeaderKey name) of
        Some values \<Rightarrow>
          if CanonicalHeaderKey name = ''Set-Cookie'' \<and> length values > 0 then values ! 0
          else Join values '', ''
      | None \<Rightarrow> '''')"

text \<open>
  The two header tables are Go maps used as sets; a \<^verbatim>\<open>range\<close> over them visits the
  keys in no fixed order. They are lists here, and each loop over them below gives the
  same result in any order.
\<close>

definition statefulResponseHeaders :: "string list" where
  "statefulResponseHeaders =
     [''Authentication-Control'', ''Authentication-Info'', ''Clear-Site-Data'',
      ''Optional-WWW-Authenticate'', ''Proxy-Authenticate'', ''Proxy-Authentication-Info'',
      ''Public-Key-Pins'', ''Sec-WebSocket-Accept'', ''Set-Cookie'', ''Set-Cookie2'',
      ''SetProfile'', ''Strict-Transport-Security'', ''WWW-Authenticate'']"

definition statusNotModifiedHeaders :: "string list" where
  "statusNotModifiedHeaders =
     [''Cache-Control'', ''Content-Location'', ''Date'', ''ETag'', ''Expires'', ''Vary'']"

definition miRecordSize :: nat where
  "miRecordSize = 16 * 2 ^ 10"

text \<open>\<^verbatim>\<open>const maxSignableBodyLength = 4 * 1 << 20\<close>, that is \<open>(4 * 1) << 20\<close>.\<close>

definition maxSignableBodyLength :: nat where
  "maxSignableBodyLength = (4 * 1) * 2 ^ 20"

section \<open>Preload records and the Link header\<close>

text \<open>
  Modelled from the spec: the messages \<^verbatim>\<open>Metadata\<close>, \<^verbatim>\<open>Metadata_Preload\<close> and its
  attributes of the generated package \<^verbatim>\<open>rpb\<close>, which is not in \<^verbatim>\<open>signer.go\<close>. Section
  4.5 of the specification gives a preload record as \<^verbatim>\<open>{url, as, attributes: [(key,val), ...]}\<close>
  and section 4.7 gives the metadata its preloads and its \<^verbatim>\<open>max_age_secs\<close>, which is a
  signed 32-bit field of the message.
\<close>

record attribute =
  Key :: string
  Val :: string

record preload =
  Url :: string
  As :: string
  Attributes :: "attribute list"

record metadata =
  Preloads :: "preload list"
  MaxAgeSecs :: "32 word"

type_synonym error = string

text \<open>
  The inner loop of \<^verbatim>\<open>formatLinkHeader\<close> over the attributes of one preload; \<open>None\<close>
  is \<^verbatim>\<open>valid = false; break\<close>. \<open>quote\<close> stands for \<^verbatim>\<open>util.QuotedString\<close>.
\<close>

fun writeAttributes :: "(string \<Rightarrow> string option) \<Rightarrow> attribute list \<Rightarrow> string \<Rightarrow> string option" where
  "writeAttributes quote [] value = Some value"
| "writeAttributes quote (attr # attrs) value =
     (case quote (Val attr) of
        None \<Rightarrow> None
      | Some quotedVal \<Rightarrow>
          writeAttributes quote attrs (value @ '';'' @ Key attr @ ''='' @ quotedVal))"

text \<open>
  The outer loop; \<open>values\<close> is the slice built so far. \<open>parse\<close> stands for the three
  calls on the URL: \<^verbatim>\<open>url.Parse\<close> (\<open>None\<close> when it fails), the replacement of the raw
  query by its \<^verbatim>\<open>url.PathEscape\<close>, and \<^verbatim>\<open>String()\<close>.
\<close>

fun formatLinkLoop ::
  "(string \<Rightarrow> string option) \<Rightarrow> (string \<Rightarrow> string option) \<Rightarrow> preload list \<Rightarrow> string list
   \<Rightarrow> error + string list" where
  "formatLinkLoop parse quote [] values = Inr values"
| "formatLinkLoop parse quote (p # preloads) values =
     (case parse (Url p) of
        None \<Rightarrow> Inl (''Invalid preload URL: '' @ Url p)
      | Some u \<Rightarrow>
          if As p = '''' then Inl (''Missing `as` attribute for preload URL: '' @ Url p)
          else (case writeAttributes quote (Attributes p) (''<'' @ u @ ''>;rel=preload;as='' @ As p) of
                  None \<Rightarrow> formatLinkLoop parse quote preloads values
                | Some value \<Rightarrow> formatLinkLoop parse quote preloads (values @ [value])))"

definition formatLinkHeader ::
  "(string \<Rightarrow> string option) \<Rightarrow> (string \<Rightarrow> string option) \<Rightarrow> preload list \<Rightarrow> error + string" where
  "formatLinkHeader parse quote preloads =
     (case formatLinkLoop parse quote preloads [] of
        Inl err \<Rightarrow> Inl err
      | Inr values \<Rightarrow> Inr (Join values '',''))"

text \<open>What one preload record contributes to the Link value when every step succeeds.\<close>

definition linkValue :: "(string \<Rightarrow> string option) \<Rightarrow> (string \<Rightarrow> string option) \<Rightarrow> preload \<Rightarrow> string" where
  "linkValue parse quote p =
     ''<'' @ (case parse (Url p) of None \<Rightarrow> '''' | Some u \<Rightarrow> u) @
     ''>;rel=preload;as='' @ As p @
     concat (map (\<lambda>attr. '';'' @ Key attr @ ''='' @
                    (case quote (Val attr) of None \<Rightarrow> '''' | Some quotedVal \<Rightarrow> quotedVal))
               (Attributes p))"

definition encodable :: "(string \<Rightarrow> string option) \<Rightarrow> preload \<Rightarrow> bool" where
  "encodable quote p = list_all (\<lambda>attr. quote (Val attr) \<noteq> None) (Attributes p)"

section \<open>The response writer and the fetched response\<close>

text \<open>A \<^verbatim>\<open>*url.URL\<close> is kept as the text that its \<^verbatim>\<open>String()\<close> returns.\<close>

datatype url = URL string

fun url_String :: "url \<Rightarrow> string" where
  "url_String (URL s) = s"

text \<open>
  \<^verbatim>\<open>signedexchange.Signer\<close> and \<^verbatim>\<open>signedexchange.Exchange\<close>, with the fields the
  handler sets. Times are nanoseconds since the epoch; the certificate and the private
  key belong to the signer object and are not part of the model.
\<close>

record sxgSigner =
  Date :: int
  Expires :: int
  CertUrl :: url
  ValidityUrl :: url

record exchange =
  Version :: string
  RequestURI :: string
  RequestMethod :: string
  RequestHeaders :: header
  ResponseStatus :: int
  ResponseHeaders :: header
  Payload :: string
  Signature :: "sxgSigner option"

text \<open>
  What the client is sent: bytes of the upstream body, a serialized signed exchange
  (kept as the exchange it serializes), or the text that \<^verbatim>\<open>http.Error\<close> writes for a
  status code.
\<close>

datatype chunk = Bytes string | SXG exchange | ErrorText int

text \<open>
  \<^verbatim>\<open>http.ResponseWriter\<close>: the header map, the status line with the headers as they
  were when it was written (later changes of the map are not sent), and the body written
  so far. The two values of the counter \<^verbatim>\<open>documents_signed_vs_unsigned\<close> are carried
  along.
\<close>

record response =
  rwHeader :: header
  rwWritten :: "(int \<times> header) option"
  rwBody :: "chunk list"
  promSigned :: nat
  promProxiedUnsigned :: nat

definition newResponse :: response where
  "newResponse =
     \<lparr>rwHeader = Map.empty, rwWritten = None, rwBody = [], promSigned = 0, promProxiedUnsigned = 0\<rparr>"

definition WriteHeader :: "int \<Rightarrow> response \<Rightarrow> response" where
  "WriteHeader statusCode resp =
     (if rwWritten resp = None then resp\<lparr>rwWritten := Some (statusCode, rwHeader resp)\<rparr>
      else resp)"

definition Write :: "chunk \<Rightarrow> response \<Rightarrow> response" where
  "Write b resp =
     (let resp1 = (if rwWritten resp = None then WriteHeader 200 resp else resp)
      in resp1\<lparr>rwBody := rwBody resp1 @ [b]\<rparr>)"

text \<open>
  Modelled from the spec: \<^verbatim>\<open>util.HTTPError\<close> and its \<^verbatim>\<open>LogAndRespond\<close>, which are
  not in \<^verbatim>\<open>signer.go\<close>. The specification gives an error its status code (section 7:
  a response with that code, logged); the response is the status line followed by the
  error text.
\<close>

record HTTPError =
  errStatusCode :: int
  errMsg :: string

definition NewHTTPError :: "int \<Rightarrow> string \<Rightarrow> HTTPError" where
  "NewHTTPError statusCode msg = \<lparr>errStatusCode = statusCode, errMsg = msg\<rparr>"

definition LogAndRespond :: "HTTPError \<Rightarrow> response \<Rightarrow> response" where
  "LogAndRespond e resp = Write (ErrorText (errStatusCode e)) (WriteHeader (errStatusCode e) resp)"

text \<open>
  The body of the fetched response is a reader: the bytes it delivers, and whether the
  read after the last byte reports an error instead of the end of the stream.
\<close>

record bodyReader =
  pending :: string
  broken :: bool

record fetchResponse =
  StatusCode :: int
  Header :: header
  Body :: bodyReader

record consumedFetchResp =
  body :: string
  consumedStatusCode :: int
  consumedHeader :: header

record SXGParams =
  signURL :: url
  ampCacheTransformHeader :: string
  transformVersion :: int

text \<open>
  \<^verbatim>\<open>ioutil.ReadAll(io.LimitReader(r, n))\<close>: the limit is reached before the end of the
  stream is looked at, so a stream of at least \<open>n\<close> bytes gives its first \<open>n\<close> bytes and
  no error. The second component is the reader left behind.
\<close>

definition readAllLimited :: "bodyReader \<Rightarrow> nat \<Rightarrow> (error + string) \<times> bodyReader" where
  "readAllLimited r n =
     (if n \<le> length (pending r) then (Inr (take n (pending r)), r\<lparr>pending := drop n (pending r)\<rparr>)
      else if broken r then (Inl ''read error'', r\<lparr>pending := []\<rparr>)
      else (Inr (pending r), r\<lparr>pending := [], broken := False\<rparr>))"

text \<open>
  \<^verbatim>\<open>io.Copy(resp, r)\<close>: writes what the reader delivers (nothing is written for an
  empty stream); returns the number of bytes copied and whether the copy failed.
\<close>

definition ioCopy :: "response \<Rightarrow> bodyReader \<Rightarrow> response \<times> nat \<times> bool" where
  "ioCopy resp r =
     ((if pending r = [] then resp else Write (Bytes (pending r)) resp),
      length (pending r), broken r)"

text \<open>Proxy the content unsigned (lines 703-725).\<close>

definition proxyImpl ::
  "response \<Rightarrow> header \<Rightarrow> int \<Rightarrow> string option \<Rightarrow> bodyReader option \<Rightarrow> response" where
  "proxyImpl resp hdr statusCode consumedPrefix unconsumedSuffix =
     (let resp1 = resp\<lparr>rwHeader := rwHeader resp ++ hdr\<rparr>;
          resp2 = WriteHeader statusCode resp1;
          resp3 = (case consumedPrefix of
                     None \<Rightarrow> resp2
                   | Some p \<Rightarrow> Write (Bytes p) resp2);
          resp4 = (case unconsumedSuffix of
                     None \<Rightarrow> resp3
                   | Some r \<Rightarrow>
                       (case ioCopy resp3 r of
                          (resp', bytesCopied, err) \<Rightarrow>
                            if err then
                              if bytesCopied = 0
                              then LogAndRespond (NewHTTPError 500 ''Error copying response body'') resp'
                              else resp'
                            else resp'))
      in resp4\<lparr>promProxiedUnsigned := promProxiedUnsigned resp4 + 1\<rparr>)"

definition proxyUnconsumed :: "response \<Rightarrow> fetchResponse \<Rightarrow> response" where
  "proxyUnconsumed resp fetchResp =
     proxyImpl resp (Header fetchResp) (StatusCode fetchResp) None (Some (Body fetchResp))"

text \<open>
  \<open>rest\<close> is the reader of \<^verbatim>\<open>fetchResp.Body\<close> after the prefix has been read from it.
\<close>

definition proxyPartiallyConsumed :: "response \<Rightarrow> fetchResponse \<Rightarrow> bodyReader \<Rightarrow> string \<Rightarrow> response" where
  "proxyPartiallyConsumed resp fetchResp rest consumedBodyPrefix =
     proxyImpl resp (Header fetchResp) (StatusCode fetchResp) (Some consumedBodyPrefix) (Some rest)"

definition proxyConsumed :: "response \<Rightarrow> consumedFetchResp \<Rightarrow> response" where
  "proxyConsumed resp fetchResp =
     proxyImpl resp (consumedHeader fetchResp) (consumedStatusCode fetchResp)
       (Some (body fetchResp)) None"

section \<open>The signer and its collaborators\<close>

record transformerRequest =
  Html :: string
  DocumentUrl :: string
  Rtv :: string
  Css :: string
  AllowedFormats :: "string list"
  TransformVersion :: int

text \<open>The request of the upstream fetch, as \<^verbatim>\<open>fetchURL\<close> returns it.\<close>

record fetchRequest =
  fetchedURL :: url
  fetchHost :: string
  fetchHeader :: header

text \<open>The inbound request: what \<^verbatim>\<open>ServeHTTP\<close> reads of \<^verbatim>\<open>*http.Request\<close>.\<close>

record request =
  parseFormError :: "error option"
  Form :: "string \<Rightarrow> string list"
  Params :: "string \<rightharpoonup> string"
  Host :: string
  Proto :: string
  reqHeader :: header

definition FormValue :: "request \<Rightarrow> string \<Rightarrow> string" where
  "FormValue req key = (case Form req key of [] \<Rightarrow> '''' | v # vs \<Rightarrow> v)"

text \<open>
  The \<^verbatim>\<open>Signer\<close> struct with the packages it calls, none of which is in
  \<^verbatim>\<open>signer.go\<close>. Each field is the result of the call named in its comment, as a
  function of the arguments the handler passes.
\<close>

record signer =
  parseURLs :: "string \<Rightarrow> string \<Rightarrow> HTTPError + (url \<times> url \<times> bool)"
    \<comment> \<open>\<^verbatim>\<open>parseURLs(fetch, sign, this.urlSets)\<close>\<close>
  fetchURLAndMeasure :: "url \<Rightarrow> string \<Rightarrow> string \<Rightarrow> header \<Rightarrow> HTTPError + (fetchRequest \<times> fetchResponse)"
    \<comment> \<open>the upstream fetch, from the fetch URL and the inbound host, protocol and headers\<close>
  shouldPackage :: "error option"
  requireHeaders :: bool
  ShouldSendSXG :: "string \<Rightarrow> string \<times> int"
    \<comment> \<open>\<^verbatim>\<open>amp_cache_transform.ShouldSendSXG\<close>\<close>
  SelectVersion :: "error + int"
    \<comment> \<open>\<^verbatim>\<open>transformer.SelectVersion(nil)\<close>\<close>
  CanSatisfy :: "string \<Rightarrow> bool"
    \<comment> \<open>\<^verbatim>\<open>accept.CanSatisfy\<close>\<close>
  validateFetch :: "fetchRequest \<Rightarrow> fetchResponse \<Rightarrow> error option"
  GetRTV :: string
  GetCSS :: string
  Process :: "transformerRequest \<Rightarrow> error + (string \<times> metadata)"
    \<comment> \<open>\<^verbatim>\<open>transformer.Process\<close>\<close>
  parsePreloadURL :: "string \<Rightarrow> string option"
    \<comment> \<open>\<^verbatim>\<open>url.Parse\<close>, path-escaping of the raw query, \<^verbatim>\<open>String()\<close>\<close>
  QuotedString :: "string \<Rightarrow> string option"
    \<comment> \<open>\<^verbatim>\<open>util.QuotedString\<close>\<close>
  miEncode :: "string \<Rightarrow> nat \<Rightarrow> error + (string \<times> string)"
    \<comment> \<open>the encoded payload and the digest that \<^verbatim>\<open>MiEncodePayload\<close> computes\<close>
  genCertURL :: "url \<Rightarrow> error + url"
    \<comment> \<open>\<^verbatim>\<open>this.genCertURL(cert, signURL)\<close> for the latest certificate\<close>
  timeNow :: int
    \<comment> \<open>\<^verbatim>\<open>time.Now()\<close>\<close>
  parseValidityMapPath :: "error + url"
    \<comment> \<open>\<^verbatim>\<open>url.Parse(util.ValidityMapPath)\<close>\<close>
  ResolveReference :: "url \<Rightarrow> url \<Rightarrow> url"
  AddSignatureHeader :: "exchange \<Rightarrow> sxgSigner \<Rightarrow> error option"
  exchangeWrite :: "exchange \<Rightarrow> error option"
    \<comment> \<open>\<^verbatim>\<open>exchange.Write(&body)\<close>\<close>
  clientWriteError :: "error option"
    \<comment> \<open>the error of \<^verbatim>\<open>resp.Write\<close> of the serialized exchange\<close>

text \<open>
  Modelled from the spec: the constants \<^verbatim>\<open>accept.SxgVersion\<close> and
  \<^verbatim>\<open>accept.SxgContentType\<close> of the package \<^verbatim>\<open>accept\<close>, which is not in
  \<^verbatim>\<open>signer.go\<close>; section 8 of the specification gives
  \<^verbatim>\<open>application/signed-exchange;v=b3\<close>.
\<close>

definition SxgVersion :: string where
  "SxgVersion = ''b3''"

definition SxgContentType :: string where
  "SxgContentType = ''application/signed-exchange;v=b3''"

definition getTransformerRequest :: "signer \<Rightarrow> string \<Rightarrow> string \<Rightarrow> transformerRequest" where
  "getTransformerRequest this s u =
     \<lparr>Html = s, DocumentUrl = u, Rtv = GetRTV this, Css = GetCSS this,
      AllowedFormats = [''AMP''], TransformVersion = 0\<rparr>"

text \<open>\<^verbatim>\<open>strconv.Itoa\<close> of a length.\<close>

function Itoa :: "nat \<Rightarrow> string" where
  "Itoa n =
     (if n < 10 then [''0123456789'' ! n]
      else Itoa (n div 10) @ [''0123456789'' ! (n mod 10)])"
  by pat_completeness auto
termination
  by (relation "measure id") auto

declare Itoa.simps [simp del]

definition NewExchange ::
  "string \<Rightarrow> string \<Rightarrow> string \<Rightarrow> header \<Rightarrow> int \<Rightarrow> header \<Rightarrow> string \<Rightarrow> exchange" where
  "NewExchange ver uri method requestHeaders status responseHeaders payload =
     \<lparr>Version = ver, RequestURI = uri, RequestMethod = method, RequestHeaders = requestHeaders,
      ResponseStatus = status, ResponseHeaders = responseHeaders, Payload = payload,
      Signature = None\<rparr>"

text \<open>
  \<^verbatim>\<open>exchange.MiEncodePayload(miRecordSize)\<close> of the signed-exchange library: as section
  4.7 of the specification has it, the payload is replaced by its encoded form and the
  inner response gets a \<^verbatim>\<open>Digest\<close> header.
\<close>

definition MiEncodePayload :: "signer \<Rightarrow> exchange \<Rightarrow> nat \<Rightarrow> error + exchange" where
  "MiEncodePayload this e recordSize =
     (case miEncode this (Payload e) recordSize of
        Inl err \<Rightarrow> Inl err
      | Inr (encoded, digest) \<Rightarrow>
          Inr (e\<lparr>Payload := encoded,
                 ResponseHeaders := Header_Set (ResponseHeaders e) ''Digest'' digest\<rparr>))"

text \<open>
  Durations are \<^verbatim>\<open>time.Duration\<close>, a signed 64-bit count of nanoseconds;
  \<^verbatim>\<open>metadata.MaxAgeSecs\<close> is a signed 32-bit integer.
\<close>

definition Second :: "64 word" where
  "Second = 1000000000"

definition Hour :: "64 word" where
  "Hour = 3600 * Second"

definition signatureDuration :: "metadata \<Rightarrow> 64 word" where
  "signatureDuration m =
     (let duration = 7 * 24 * Hour;
          maxAge = scast (MaxAgeSecs m) * Second
      in if maxAge <s duration then maxAge else duration)"

text \<open>\<^verbatim>\<open>t.Add(d)\<close> on the time line of nanoseconds.\<close>

definition Time_Add :: "int \<Rightarrow> 64 word \<Rightarrow> int" where
  "Time_Add t d = t + sint d"

text \<open>The header mutations of lines 568-591, on the headers of the fetched response.\<close>

definition mutateHeaders :: "header \<Rightarrow> string \<Rightarrow> string \<Rightarrow> header" where
  "mutateHeaders hdr linkHeader transformed =
     (let h1 = fold (\<lambda>name h. Header_Del h name) statefulResponseHeaders hdr;
          h2 = (if linkHeader \<noteq> '''' then Header_Set h1 ''Link'' linkHeader
                else Header_Del h1 ''Link'');
          h3 = Header_Set h2 ''Content-Length'' (Itoa (length transformed));
          h4 = Header_Set h3 ''X-Content-Type-Options'' ''nosniff''
      in Header_Set h4 ''Content-Security-Policy''
           (MutateFetchedContentSecurityPolicy (Header_Get h4 ''Content-Security-Policy'')))"

text \<open>
  \<^verbatim>\<open>serveSignedExchange\<close> (lines 545-680): transforming, packaging, signing and
  writing to the response. Every early return of the source is a branch. The headers of
  \<open>fetchResp\<close> are mutated in place, so a fallback after the mutation proxies the
  mutated headers. When the final \<^verbatim>\<open>resp.Write\<close> fails, the handler logs and returns
  before the counter; how much of the exchange reached the client is not known, and the
  model keeps the status line only.
\<close>

definition serveSignedExchange :: "signer \<Rightarrow> response \<Rightarrow> consumedFetchResp \<Rightarrow> SXGParams \<Rightarrow> response" where
  "serveSignedExchange this resp fetchResp params =
     (case Process this
             ((getTransformerRequest this (body fetchResp) (url_String (signURL params)))
                \<lparr>TransformVersion := transformVersion params\<rparr>) of
        Inl err \<Rightarrow> proxyConsumed resp fetchResp
      | Inr (transformed, metadata) \<Rightarrow>
     (case formatLinkHeader (parsePreloadURL this) (QuotedString this) (Preloads metadata) of
        Inl err \<Rightarrow> proxyConsumed resp fetchResp
      | Inr linkHeader \<Rightarrow>
     (let fetchResp = fetchResp\<lparr>consumedHeader :=
            mutateHeaders (consumedHeader fetchResp) linkHeader transformed\<rparr>;
          exchange = NewExchange SxgVersion (url_String (signURL params)) ''GET'' Map.empty
            (consumedStatusCode fetchResp) (consumedHeader fetchResp) transformed
      in
     (case MiEncodePayload this exchange miRecordSize of
        Inl err \<Rightarrow> proxyConsumed resp fetchResp
      | Inr exchange \<Rightarrow>
     (case genCertURL this (signURL params) of
        Inl err \<Rightarrow> proxyConsumed resp fetchResp
      | Inr certURL \<Rightarrow>
     (let now = timeNow this in
     (case parseValidityMapPath this of
        Inl err \<Rightarrow> proxyConsumed resp fetchResp
      | Inr validityHRef \<Rightarrow>
     (let duration = signatureDuration metadata;
          date = Time_Add now (- 24 * Hour);
          expires = Time_Add date duration
      in
      if \<not> (expires > now) then proxyConsumed resp fetchResp
      else
     (let signer = \<lparr>Date = date, Expires = expires, CertUrl = certURL,
                     ValidityUrl = ResolveReference this (signURL params) validityHRef\<rparr>
      in
     (case AddSignatureHeader this exchange signer of
        Some err \<Rightarrow> proxyConsumed resp fetchResp
      | None \<Rightarrow>
     (let exchange = exchange\<lparr>Signature := Some signer\<rparr> in
     (case exchangeWrite this exchange of
        Some err \<Rightarrow> proxyConsumed resp fetchResp
      | None \<Rightarrow>
     (let resp1 = (if ampCacheTransformHeader params \<noteq> ''''
                   then resp\<lparr>rwHeader := Header_Set (rwHeader resp) ''AMP-Cache-Transform''
                                             (ampCacheTransformHeader params)\<rparr>
                   else resp);
          resp2 = resp1\<lparr>rwHeader := Header_Set (rwHeader resp1) ''Content-Type'' SxgContentType\<rparr>;
          resp3 = resp2\<lparr>rwHeader := Header_Set (rwHeader resp2) ''Cache-Control''
                                         ''no-transform, max-age=0''\<rparr>;
          resp4 = resp3\<lparr>rwHeader := Header_Set (rwHeader resp3) ''X-Content-Type-Options''
                                         ''nosniff''\<rparr>
      in
     (case clientWriteError this of
        Some err \<Rightarrow> WriteHeader 200 resp4
      | None \<Rightarrow>
          (Write (SXG exchange) resp4)\<lparr>promSigned := promSigned resp4 + 1\<rparr>))))))))))))))"

text \<open>\<^verbatim>\<open>consumeAndSign\<close> (lines 508-525).\<close>

definition consumeAndSign :: "signer \<Rightarrow> response \<Rightarrow> fetchResponse \<Rightarrow> SXGParams \<Rightarrow> response" where
  "consumeAndSign this resp fetchResp params =
     (case readAllLimited (Body fetchResp) maxSignableBodyLength of
        (Inl err, rest) \<Rightarrow> LogAndRespond (NewHTTPError 502 (''Error reading body: '' @ err)) resp
      | (Inr fetchBodyMaybeCapped, rest) \<Rightarrow>
          if length fetchBodyMaybeCapped = maxSignableBodyLength
          then proxyPartiallyConsumed resp fetchResp rest fetchBodyMaybeCapped
          else serveSignedExchange this resp
                 \<lparr>body = fetchBodyMaybeCapped, consumedStatusCode = StatusCode fetchResp,
                  consumedHeader = Header fetchResp\<rparr> params)"

text \<open>\<^verbatim>\<open>ServeHTTP\<close> (lines 324-436).\<close>

definition ServeHTTP :: "signer \<Rightarrow> response \<Rightarrow> request \<Rightarrow> response" where
  "ServeHTTP this resp0 req =
     (let resp = resp0\<lparr>rwHeader := Header_Add (rwHeader resp0) ''Vary'' ''Accept, AMP-Cache-Transform''\<rparr>
      in
     (case parseFormError req of
        Some err \<Rightarrow> LogAndRespond (NewHTTPError 400 (''Form input parsing failed: '' @ err)) resp
      | None \<Rightarrow>
     (let inPathSignURL = (case Params req ''signURL'' of None \<Rightarrow> '''' | Some v \<Rightarrow> v) in
     (case (if inPathSignURL \<noteq> '''' then Inr ('''', inPathSignURL)
            else if length (Form req ''fetch'') > 1
              then Inl (NewHTTPError 400 ''More than 1 fetch param'')
            else if length (Form req ''sign'') \<noteq> 1
              then Inl (NewHTTPError 400 ''Not exactly 1 sign param'')
            else Inr (FormValue req ''fetch'', FormValue req ''sign'')) of
        Inl httpErr \<Rightarrow> LogAndRespond httpErr resp
      | Inr (fetch, sign) \<Rightarrow>
     (case parseURLs this fetch sign of
        Inl httpErr \<Rightarrow> LogAndRespond httpErr resp
      | Inr (fetchURL, signURL', errorOnStatefulHeaders) \<Rightarrow>
     (case fetchURLAndMeasure this fetchURL (Host req) (Proto req) (reqHeader req) of
        Inl httpErr \<Rightarrow> LogAndRespond httpErr resp
      | Inr (fetchReq, fetchResp) \<Rightarrow>
     (case shouldPackage this of
        Some err \<Rightarrow> proxyUnconsumed resp fetchResp
      | None \<Rightarrow>
     (case (if requireHeaders this
            then (case ShouldSendSXG this (GetJoined (reqHeader req) ''AMP-Cache-Transform'') of
                    (act, transformVersion') \<Rightarrow>
                      if act = '''' then None else Some (act, transformVersion'))
            else (case SelectVersion this of
                    Inl err \<Rightarrow> None
                  | Inr transformVersion' \<Rightarrow> Some ('''', transformVersion'))) of
        None \<Rightarrow> proxyUnconsumed resp fetchResp
      | Some (act, transformVersion') \<Rightarrow>
      if requireHeaders this \<and> \<not> CanSatisfy this (GetJoined (reqHeader req) ''Accept'')
      then proxyUnconsumed resp fetchResp
      else if StatusCode fetchResp = 200 then
        (case validateFetch this fetchReq fetchResp of
           Some err \<Rightarrow> proxyUnconsumed resp fetchResp
         | None \<Rightarrow>
           if list_ex (\<lambda>name. errorOnStatefulHeaders \<and> GetJoined (Header fetchResp) name \<noteq> '''')
                statefulResponseHeaders
           then proxyUnconsumed resp fetchResp
           else if Header_Get (Header fetchResp) ''Variants'' \<noteq> '''' \<or>
                   Header_Get (Header fetchResp) ''Variant-Key'' \<noteq> '''' \<or>
                   Header_Get (Header fetchResp) ''Variants-04'' \<noteq> '''' \<or>
                   Header_Get (Header fetchResp) ''Variant-Key-04'' \<noteq> ''''
           then proxyUnconsumed resp fetchResp
           else consumeAndSign this resp fetchResp
                  \<lparr>signURL = signURL', ampCacheTransformHeader = act,
                   transformVersion = transformVersion'\<rparr>)
      else if StatusCode fetchResp = 304 then
        WriteHeader 304
          (fold (\<lambda>name r.
                   let value = GetJoined (Header fetchResp) name
                   in if value \<noteq> '''' then r\<lparr>rwHeader := Header_Set (rwHeader r) name value\<rparr>
                      else r)
             statusNotModifiedHeaders resp)
      else proxyUnconsumed resp fetchResp))))))))"

section \<open>Reading a response\<close>

text \<open>The status and the headers that were sent, and the upstream bytes of the body.\<close>

definition sentStatus :: "response \<Rightarrow> int option" where
  "sentStatus resp = map_option fst (rwWritten resp)"

definition sentHeader :: "response \<Rightarrow> header" where
  "sentHeader resp = (case rwWritten resp of None \<Rightarrow> Map.empty | Some (statusCode, h) \<Rightarrow> h)"

fun bodyBytes :: "chunk list \<Rightarrow> string" where
  "bodyBytes [] = []"
| "bodyBytes (Bytes b # cs) = b @ bodyBytes cs"
| "bodyBytes (c # cs) = bodyBytes cs"

section \<open>An example signer\<close>

text \<open>
  A signer whose collaborators all succeed, for the examples: any sign URL is admitted
  and an empty fetch URL defaults to it, the upstream fetch returns the response
  \<open>upstream\<close>, and the transformer returns the document unchanged with the max-age
  \<open>maxAge\<close> and no preload. The URL parser of the example rejects the text \<^verbatim>\<open>%zz\<close>
  only.
\<close>

definition exampleParse :: "string \<Rightarrow> string option" where
  "exampleParse s = (if s = ''%zz'' then None else Some s)"

text \<open>
  Modelled from the spec: \<^verbatim>\<open>util.QuotedString\<close>, which is not in \<^verbatim>\<open>signer.go\<close>.
  Section 4.5 of the specification asks for the HTTP quoted-string rules: a value that
  holds a control byte other than the tab cannot be encoded; the double quote and the
  backslash are escaped by a backslash.
\<close>

definition controlBytes :: string where
  "controlBytes =
     [CHR 0x00, CHR 0x01, CHR 0x02, CHR 0x03, CHR 0x04, CHR 0x05, CHR 0x06, CHR 0x07,
      CHR 0x08, CHR 0x0A, CHR 0x0B, CHR 0x0C, CHR 0x0D, CHR 0x0E, CHR 0x0F, CHR 0x10,
      CHR 0x11, CHR 0x12, CHR 0x13, CHR 0x14, CHR 0x15, CHR 0x16, CHR 0x17, CHR 0x18,
      CHR 0x19, CHR 0x1A, CHR 0x1B, CHR 0x1C, CHR 0x1D, CHR 0x1E, CHR 0x1F, CHR 0x7F]"

definition exampleQuotedString :: "string \<Rightarrow> string option" where
  "exampleQuotedString v =
     (if list_ex (\<lambda>c. c \<in> set controlBytes) v then None
      else Some ([CHR 0x22] @
                 concat (map (\<lambda>c. if c = CHR 0x22 \<or> c = CHR 0x5C then [CHR 0x5C, c] else [c]) v) @
                 [CHR 0x22]))"

definition exampleSigner :: "fetchResponse \<Rightarrow> 32 word \<Rightarrow> signer" where
  "exampleSigner upstream maxAge =
     \<lparr>parseURLs = (\<lambda>fetch sign. Inr (URL (if fetch = '''' then sign else fetch), URL sign, False)),
      fetchURLAndMeasure = (\<lambda>u host proto h.
        Inr (\<lparr>fetchedURL = u, fetchHost = host, fetchHeader = Map.empty\<rparr>, upstream)),
      shouldPackage = None,
      requireHeaders = False,
      ShouldSendSXG = (\<lambda>v. ('''', 0)),
      SelectVersion = Inr 1,
      CanSatisfy = (\<lambda>v. False),
      validateFetch = (\<lambda>fetchReq fetchResp. None),
      GetRTV = ''012345678900000'',
      GetCSS = '''',
      Process = (\<lambda>r. Inr (Html r, \<lparr>Preloads = [], MaxAgeSecs = maxAge\<rparr>)),
      parsePreloadURL = exampleParse,
      QuotedString = exampleQuotedString,
      miEncode = (\<lambda>payload recordSize. Inr (payload, ''mi-sha256-03=example'')),
      genCertURL = (\<lambda>u. Inr (URL ''https://example.com/amppkg/cert/example'')),
      timeNow = 1700000000000000000,
      parseValidityMapPath = Inr (URL ''/amppkg/validity''),
      ResolveReference = (\<lambda>base ref. URL ''https://example.com/amppkg/validity''),
      AddSignatureHeader = (\<lambda>e s. None),
      exchangeWrite = (\<lambda>e. None),
      clientWriteError = None\<rparr>"

text \<open>A request with the form value \<^verbatim>\<open>sign=https://example.com/amp.html\<close>.\<close>

definition exampleRequest :: request where
  "exampleRequest =
     \<lparr>parseFormError = None,
      Form = (\<lambda>key. if key = ''sign'' then [''https://example.com/amp.html''] else []),
      Params = Map.empty,
      Host = ''amppkg.example'',
      Proto = ''HTTP/1.1'',
      reqHeader = Map.empty\<rparr>"

text \<open>
  A request whose sign URL comes from the path, with two \<^verbatim>\<open>fetch\<close> form values.
\<close>

definition examplePathRequest :: request where
  "examplePathRequest =
     \<lparr>parseFormError = None,
      Form = (\<lambda>key. if key = ''fetch'' then [''https://a.example/'', ''https://b.example/''] else []),
      Params = [''signURL'' \<mapsto> ''https://example.com/amp.html''],
      Host = ''amppkg.example'',
      Proto = ''HTTP/1.1'',
      reqHeader = Map.empty\<rparr>"

text \<open>Upstream responses: a document with a cookie, a 304, and a 404 with its own Vary.\<close>

definition exampleDocument :: fetchResponse where
  "exampleDocument =
     \<lparr>StatusCode = 200,
      Header = [''Content-Type'' \<mapsto> [''text/html''], ''Set-Cookie'' \<mapsto> [''x=1'']],
      Body = \<lparr>pending = ''<html amp></html>'', broken = False\<rparr>\<rparr>"

definition exampleNotModified :: fetchResponse where
  "exampleNotModified =
     \<lparr>StatusCode = 304,
      Header = [''Etag'' \<mapsto> [''abc'']],
      Body = \<lparr>pending = '''', broken = False\<rparr>\<rparr>"

definition exampleNotFound :: fetchResponse where
  "exampleNotFound =
     \<lparr>StatusCode = 404,
      Header = [''Vary'' \<mapsto> [''Accept-Encoding'']],
      Body = \<lparr>pending = ''not found'', broken = False\<rparr>\<rparr>"

text \<open>The exchange that the example signer emits for the example document.\<close>

definition exampleExchange :: "32 word \<Rightarrow> exchange" where
  "exampleExchange maxAge =
     \<lparr>Version = SxgVersion, RequestURI = ''https://example.com/amp.html'',
      RequestMethod = ''GET'', RequestHeaders = Map.empty, ResponseStatus = 200,
      ResponseHeaders =
        Header_Set (mutateHeaders (Header exampleDocument) '''' ''<html amp></html>'')
          ''Digest'' ''mi-sha256-03=example'',
      Payload = ''<html amp></html>'',
      Signature = Some
        \<lparr>Date = 1700000000000000000 - 86400000000000,
         Expires = 1700000000000000000 - 86400000000000 +
                   min 604800000000000 (sint maxAge * 1000000000),
         CertUrl = URL ''https://example.com/amppkg/cert/example'',
         ValidityUrl = URL ''https://example.com/amppkg/validity''\<rparr>\<rparr>"

section \<open>Properties of the policy rewriting\<close>

lemma DecodeRune_prefix:
  "v \<noteq> [] \<Longrightarrow>
   DecodeRuneInString v = (RuneError, 1) \<or> DecodeRuneInString (v @ w) = DecodeRuneInString v"
proof -
  assume "v \<noteq> []"
  then obtain c0 s where v: "v = c0 # s" by (cases v) auto
  show ?thesis
  proof (cases s)
    case Nil
    then show ?thesis by (simp add: v split: list.split)
  next
    case s1: (Cons c1 s1)
    show ?thesis
    proof (cases s1)
      case Nil
      then show ?thesis by (simp add: v s1 split: list.split)
    next
      case s2: (Cons c2 s2)
      show ?thesis
      proof (cases s2)
        case Nil
        then show ?thesis by (simp add: v s1 s2 split: list.split)
      next
        case (Cons c3 s3)
        then show ?thesis by (simp add: v s1 s2)
      qed
    qed
  qed
qed

lemma not_space_RuneError: "\<not> IsSpace RuneError"
  by (simp add: IsSpace_def RuneError_def)

lemma TrimLeftSpace_Nil: "TrimLeftSpace [] = []"
  by (subst TrimLeftSpace.simps) simp

lemma TrimRightSpace_Nil: "TrimRightSpace [] = []"
  by (subst TrimRightSpace.simps) simp

lemma TrimLeftSpace_suffix: "\<exists>n. TrimLeftSpace s = drop n s"
proof (induction s rule: TrimLeftSpace.induct)
  case (1 s)
  show ?case
  proof (cases "s = []")
    case True
    then show ?thesis by (simp add: TrimLeftSpace_Nil)
  next
    case False
    obtain r width where d: "DecodeRuneInString s = (r, width)"
      by (cases "DecodeRuneInString s") auto
    show ?thesis
    proof (cases "IsSpace r")
      case True
      then obtain n where "TrimLeftSpace (drop width s) = drop n (drop width s)"
        using 1 [OF False d [symmetric]] by auto
      then have "TrimLeftSpace s = drop (n + width) s"
        using False d True by (simp add: TrimLeftSpace.simps [of s])
      then show ?thesis by blast
    next
      case no: False
      then have "TrimLeftSpace s = drop 0 s"
        using False d by (simp add: TrimLeftSpace.simps [of s])
      then show ?thesis by blast
    qed
  qed
qed

lemma TrimLeftSpace_head:
  "TrimLeftSpace s = [] \<or> \<not> IsSpace (fst (DecodeRuneInString (TrimLeftSpace s)))"
proof (induction s rule: TrimLeftSpace.induct)
  case (1 s)
  show ?case
  proof (cases "s = []")
    case True
    then show ?thesis by (simp add: TrimLeftSpace_Nil)
  next
    case False
    obtain r width where d: "DecodeRuneInString s = (r, width)"
      by (cases "DecodeRuneInString s") auto
    show ?thesis
    proof (cases "IsSpace r")
      case True
      then have "TrimLeftSpace s = TrimLeftSpace (drop width s)"
        using False d by (simp add: TrimLeftSpace.simps [of s])
      then show ?thesis
        using 1 [OF False d [symmetric] True] by simp
    next
      case no: False
      then have "TrimLeftSpace s = s"
        using False d by (simp add: TrimLeftSpace.simps [of s])
      then show ?thesis using no d by simp
    qed
  qed
qed

lemma TrimLeftSpace_fixed:
  "s = [] \<or> \<not> IsSpace (fst (DecodeRuneInString s)) \<Longrightarrow> TrimLeftSpace s = s"
  by (cases "DecodeRuneInString s") (auto simp: TrimLeftSpace.simps [of s])

lemma TrimRightSpace_prefix: "\<exists>n. TrimRightSpace s = take n s"
proof (induction s rule: TrimRightSpace.induct)
  case (1 s)
  show ?case
  proof (cases "s = []")
    case True
    then show ?thesis by (simp add: TrimRightSpace_Nil)
  next
    case False
    obtain r width where d: "DecodeLastRuneInString s = (r, width)"
      by (cases "DecodeLastRuneInString s") auto
    show ?thesis
    proof (cases "IsSpace r")
      case True
      then obtain n where
        "TrimRightSpace (take (length s - width) s) = take n (take (length s - width) s)"
        using 1 [OF False d [symmetric]] by auto
      then have "TrimRightSpace s = take (min n (length s - width)) s"
        using False d True by (simp add: TrimRightSpace.simps [of s])
      then show ?thesis by blast
    next
      case no: False
      then have "TrimRightSpace s = take (length s) s"
        using False d by (simp add: TrimRightSpace.simps [of s])
      then show ?thesis by blast
    qed
  qed
qed

lemma TrimRightSpace_last:
  "TrimRightSpace s = [] \<or> \<not> IsSpace (fst (DecodeLastRuneInString (TrimRightSpace s)))"
proof (induction s rule: TrimRightSpace.induct)
  case (1 s)
  show ?case
  proof (cases "s = []")
    case True
    then show ?thesis by (simp add: TrimRightSpace_Nil)
  next
    case False
    obtain r width where d: "DecodeLastRuneInString s = (r, width)"
      by (cases "DecodeLastRuneInString s") auto
    show ?thesis
    proof (cases "IsSpace r")
      case True
      then have "TrimRightSpace s = TrimRightSpace (take (length s - width) s)"
        using False d by (simp add: TrimRightSpace.simps [of s])
      then show ?thesis
        using 1 [OF False d [symmetric] True] by simp
    next
      case no: False
      then have "TrimRightSpace s = s"
        using False d by (simp add: TrimRightSpace.simps [of s])
      then show ?thesis using no d by simp
    qed
  qed
qed

lemma TrimRightSpace_fixed:
  "s = [] \<or> \<not> IsSpace (fst (DecodeLastRuneInString s)) \<Longrightarrow> TrimRightSpace s = s"
  by (cases "DecodeLastRuneInString s") (auto simp: TrimRightSpace.simps [of s])

lemma set_TrimSpace: "set (TrimSpace t) \<subseteq> set t"
proof -
  obtain n where n: "TrimLeftSpace t = drop n t"
    using TrimLeftSpace_suffix by blast
  obtain m where m: "TrimRightSpace (TrimLeftSpace t) = take m (TrimLeftSpace t)"
    using TrimRightSpace_prefix by blast
  have "set (TrimSpace t) \<subseteq> set (TrimLeftSpace t)"
    unfolding TrimSpace_def m by (rule set_take_subset)
  also have "\<dots> \<subseteq> set t"
    unfolding n by (rule set_drop_subset)
  finally show ?thesis .
qed

lemma TrimSpace_idem: "TrimSpace (TrimSpace t) = TrimSpace t"
proof -
  define u where "u = TrimLeftSpace t"
  define v where "v = TrimRightSpace u"
  have v: "TrimSpace t = v" by (simp add: TrimSpace_def u_def v_def)
  have hd_u: "u = [] \<or> \<not> IsSpace (fst (DecodeRuneInString u))"
    unfolding u_def by (rule TrimLeftSpace_head)
  obtain m where m: "v = take m u"
    unfolding v_def using TrimRightSpace_prefix by blast
  have hd_v: "v = [] \<or> \<not> IsSpace (fst (DecodeRuneInString v))"
  proof (cases "v = []")
    case True
    then show ?thesis by simp
  next
    case False
    have u: "u = v @ drop m u" by (simp add: m)
    have "u \<noteq> []" using False m by auto
    then have "\<not> IsSpace (fst (DecodeRuneInString (v @ drop m u)))"
      using hd_u u by simp
    then show ?thesis
      using DecodeRune_prefix [OF False, of "drop m u"] not_space_RuneError by auto
  qed
  have last_v: "v = [] \<or> \<not> IsSpace (fst (DecodeLastRuneInString v))"
    unfolding v_def by (rule TrimRightSpace_last)
  have "TrimSpace v = v"
    by (simp add: TrimSpace_def TrimLeftSpace_fixed [OF hd_v] TrimRightSpace_fixed [OF last_v])
  then show ?thesis by (simp add: v)
qed

lemma mutateLoop_eq:
  "mutateLoop ts acc = acc @ concat (map (\<lambda>t. t @ '';'') (filter kept (map TrimSpace ts)))"
proof (induction ts arbitrary: acc)
  case Nil
  show ?case by simp
next
  case (Cons t ts)
  show ?case
    by (cases "Fields (TrimSpace t)")
       (simp_all add: Cons.IH kept_def Let_def)
qed

lemma Split_not_Nil: "Split s sep \<noteq> []"
  by (induction s) (auto split: list.split)

lemma Split_pieces: "p \<in> set (Split s sep) \<Longrightarrow> sep \<notin> set p"
proof (induction s arbitrary: p)
  case Nil
  then show ?case by simp
next
  case (Cons c cs)
  obtain q qs where q: "Split cs sep = q # qs"
    using Split_not_Nil [of cs sep] by (cases "Split cs sep") auto
  show ?case
  proof (cases "c = sep")
    case True
    with Cons show ?thesis by auto
  next
    case False
    with Cons.prems q have "p = c # q \<or> p \<in> set qs" by simp
    then show ?thesis
    proof
      assume "p = c # q"
      moreover have "sep \<notin> set q" using Cons.IH [of q] q by simp
      ultimately show ?thesis using False by auto
    next
      assume "p \<in> set qs"
      then show ?thesis using Cons.IH [of p] q by simp
    qed
  qed
qed

lemma Split_token: "sep \<notin> set t \<Longrightarrow> Split (t @ sep # r) sep = t # Split r sep"
  by (induction t) auto

lemma Split_tokens:
  "\<forall>t \<in> set ts. sep \<notin> set t \<Longrightarrow>
   Split (concat (map (\<lambda>t. t @ [sep]) ts) @ r) sep = ts @ Split r sep"
  by (induction ts) (auto simp: Split_token)

lemma suffix_kept: "filter kept (map TrimSpace (Split cspSuffix (CHR '';''))) = []"
  by code_simp

lemma Mutate_eq:
  "MutateFetchedContentSecurityPolicy s =
   concat (map (\<lambda>t. t @ '';'') (keptTokens s)) @ cspSuffix"
  by (simp add: MutateFetchedContentSecurityPolicy_def mutateLoop_eq keptTokens_def)

lemma keptTokens_no_semicolon: "t \<in> set (keptTokens s) \<Longrightarrow> CHR '';'' \<notin> set t"
  using Split_pieces set_TrimSpace by (fastforce simp: keptTokens_def)

lemma keptTokens_trimmed: "t \<in> set (keptTokens s) \<Longrightarrow> TrimSpace t = t"
  by (auto simp: keptTokens_def TrimSpace_idem)

lemma keptTokens_kept: "t \<in> set (keptTokens s) \<Longrightarrow> kept t"
  by (simp add: keptTokens_def)

lemma Split_Mutate:
  "Split (MutateFetchedContentSecurityPolicy s) (CHR '';'') =
   keptTokens s @ Split cspSuffix (CHR '';'')"
  unfolding Mutate_eq
  by (rule Split_tokens) (simp add: keptTokens_no_semicolon)

lemma map_TrimSpace_keptTokens: "map TrimSpace (keptTokens s) = keptTokens s"
  by (rule map_idI) (rule keptTokens_trimmed)

text \<open>
  Claim C5 (the rewritten policy holds no directive other than the five fixed ones and
  the seven that pass through, with white space and letter case as the specification and
  the comments of the function have them) does not hold of the code. \<^verbatim>\<open>strings.ToLower\<close>
  lowers the Kelvin sign to \<^verbatim>\<open>k\<close>, so the token \<open>kelvinDirective\<close> is written out
  although its name is none of the twelve; \<^verbatim>\<open>strings.Fields\<close> splits at a no-break
  space, so the token \<open>nbspDirective\<close>, one word of ASCII white space, is written out as
  well. In both outputs the first directive has a name that is none of the twelve.
\<close>

theorem csp_rewrite_foreign_directive:
  "MutateFetchedContentSecurityPolicy (''script-src 'self'; '' @ kelvinDirective @ '' ;'')
     = kelvinDirective @ '';'' @ cspSuffix
   \<and> specDirectiveNames
       (MutateFetchedContentSecurityPolicy (''script-src 'self'; '' @ kelvinDirective @ '' ;''))
     = asciiLower kelvinDirective # fixedNames
   \<and> asciiLower kelvinDirective \<notin> set (preservedDirectives @ fixedNames)
   \<and> MutateFetchedContentSecurityPolicy nbspDirective = nbspDirective @ '';'' @ cspSuffix
   \<and> specDirectiveNames (MutateFetchedContentSecurityPolicy nbspDirective)
     = asciiLower nbspDirective # fixedNames
   \<and> asciiLower nbspDirective \<notin> set (preservedDirectives @ fixedNames)"
  by code_simp

text \<open>
  The first directive of the rewritten Kelvin-sign policy, read as the specification
  reads it, is none of the twelve.
\<close>

theorem csp_rewrite_foreign_directive_witness:
  "hd (specDirectiveNames
         (MutateFetchedContentSecurityPolicy (''script-src 'self'; '' @ kelvinDirective @ '' ;'')))
     \<notin> set (preservedDirectives @ fixedNames)"
proof -
  note a = csp_rewrite_foreign_directive [THEN conjunct2, THEN conjunct1]
  note b = csp_rewrite_foreign_directive [THEN conjunct2, THEN conjunct2, THEN conjunct1]
  show ?thesis
    unfolding a list.sel by (rule b)
qed

text \<open>
  Claim C10. The rewriting is idempotent: applied to its own output it returns that
  output. The output is the kept tokens of the input, each followed by \<^verbatim>\<open>;\<close>, and the
  fixed suffix; the kept tokens of the output are those of the input again, the
  directives of the suffix being dropped.
\<close>

theorem csp_rewrite_idempotent:
  "MutateFetchedContentSecurityPolicy (MutateFetchedContentSecurityPolicy s) =
     MutateFetchedContentSecurityPolicy s
   \<and> MutateFetchedContentSecurityPolicy s =
     concat (map (\<lambda>t. t @ '';'') (keptTokens s)) @ cspSuffix
   \<and> keptTokens (MutateFetchedContentSecurityPolicy s) = keptTokens s"
proof -
  have "keptTokens (MutateFetchedContentSecurityPolicy s) =
        filter kept (keptTokens s) @ filter kept (map TrimSpace (Split cspSuffix (CHR '';'')))"
    by (simp add: keptTokens_def [of "MutateFetchedContentSecurityPolicy s"] Split_Mutate
        map_TrimSpace_keptTokens)
  also have "\<dots> = keptTokens s"
    using keptTokens_kept by (simp add: suffix_kept filter_id_conv)
  finally have k: "keptTokens (MutateFetchedContentSecurityPolicy s) = keptTokens s" .
  then have "MutateFetchedContentSecurityPolicy (MutateFetchedContentSecurityPolicy s) =
     MutateFetchedContentSecurityPolicy s"
    by (simp add: Mutate_eq)
  then show ?thesis
    using k Mutate_eq by simp
qed

text \<open>
  A policy with a no-break space before, and an ideographic space \<^verbatim>\<open>U+3000\<close> after, a
  \<^verbatim>\<open>FONT-src\<close> directive: the output is neither the input nor the suffix alone, and the
  second rewriting returns it.
\<close>

theorem csp_rewrite_idempotent_witness:
  "MutateFetchedContentSecurityPolicy
     (MutateFetchedContentSecurityPolicy
        (''script-src 'self';'' @ [CHR 0xC2, CHR 0xA0] @ ''FONT-src  https://f.example'' @
         [CHR 0xE3, CHR 0x80, CHR 0x80] @ '';; frame-ancestors 'none' ''))
     = ''FONT-src  https://f.example;'' @ cspSuffix"
proof -
  have e: "MutateFetchedContentSecurityPolicy
        (''script-src 'self';'' @ [CHR 0xC2, CHR 0xA0] @ ''FONT-src  https://f.example'' @
         [CHR 0xE3, CHR 0x80, CHR 0x80] @ '';; frame-ancestors 'none' '')
     = ''FONT-src  https://f.example;'' @ cspSuffix"
    by code_simp
  show ?thesis
    using csp_rewrite_idempotent
      [of "''script-src 'self';'' @ [CHR 0xC2, CHR 0xA0] @ ''FONT-src  https://f.example'' @
         [CHR 0xE3, CHR 0x80, CHR 0x80] @ '';; frame-ancestors 'none' ''", THEN conjunct1]
    by (simp only: e)
qed

section \<open>Properties of the Link header\<close>

lemma writeAttributes_eq:
  "writeAttributes quote attrs v =
     (if list_all (\<lambda>attr. quote (Val attr) \<noteq> None) attrs
      then Some (v @ concat (map (\<lambda>attr. '';'' @ Key attr @ ''='' @
                    (case quote (Val attr) of None \<Rightarrow> '''' | Some quotedVal \<Rightarrow> quotedVal)) attrs))
      else None)"
  by (induction attrs arbitrary: v) (auto split: option.splits)

lemma formatLinkLoop_fatal:
  "(\<exists>p \<in> set ps. parse (Url p) = None \<or> As p = '''') \<Longrightarrow>
   isl (formatLinkLoop parse quote ps vals)"
  by (induction ps arbitrary: vals) (auto split: option.splits)

lemma formatLinkLoop_ok:
  "\<not> (\<exists>p \<in> set ps. parse (Url p) = None \<or> As p = '''') \<Longrightarrow>
   formatLinkLoop parse quote ps vals =
     Inr (vals @ map (linkValue parse quote) (filter (encodable quote) ps))"
proof (induction ps arbitrary: vals)
  case Nil
  show ?case by simp
next
  case (Cons p ps)
  from Cons.prems obtain u where u: "parse (Url p) = Some u" and a: "As p \<noteq> ''''"
    by auto
  from Cons.prems have rest: "\<not> (\<exists>p \<in> set ps. parse (Url p) = None \<or> As p = '''')"
    by simp
  show ?case
    by (simp add: u a Cons.IH [OF rest] writeAttributes_eq encodable_def linkValue_def)
qed

text \<open>
  Claim C9. \<^verbatim>\<open>formatLinkHeader\<close> fails as a whole, with no output, as soon as one preload
  record has a URL that does not parse or an empty \<^verbatim>\<open>as\<close>. When no record has, the call
  succeeds: a record with an attribute value that cannot be quoted is left out, and the
  other records are serialized in their order and joined with commas.
\<close>

theorem formatLinkHeader_all_or_nothing:
  "((\<exists>p \<in> set preloads. parse (Url p) = None \<or> As p = '''') \<longrightarrow>
      isl (formatLinkHeader parse quote preloads))
   \<and> (\<not> (\<exists>p \<in> set preloads. parse (Url p) = None \<or> As p = '''') \<longrightarrow>
      formatLinkHeader parse quote preloads =
        Inr (Join (map (linkValue parse quote) (filter (encodable quote) preloads)) '',''))"
proof (intro conjI impI)
  assume "\<exists>p \<in> set preloads. parse (Url p) = None \<or> As p = ''''"
  then have "isl (formatLinkLoop parse quote preloads [])"
    by (rule formatLinkLoop_fatal)
  then show "isl (formatLinkHeader parse quote preloads)"
    by (cases "formatLinkLoop parse quote preloads []") (simp_all add: formatLinkHeader_def)
next
  assume "\<not> (\<exists>p \<in> set preloads. parse (Url p) = None \<or> As p = '''')"
  then show "formatLinkHeader parse quote preloads =
        Inr (Join (map (linkValue parse quote) (filter (encodable quote) preloads)) '','')"
    by (simp add: formatLinkHeader_def formatLinkLoop_ok)
qed

text \<open>
  Three records of which the second has a line feed in an attribute value; two records
  of which the second has no \<^verbatim>\<open>as\<close>; two records of which the second does not parse.
\<close>

theorem formatLinkHeader_all_or_nothing_witness:
  "formatLinkHeader exampleParse exampleQuotedString
     [\<lparr>Url = ''https://example.com/a.js'', As = ''script'', Attributes = []\<rparr>,
      \<lparr>Url = ''https://example.com/b.css'', As = ''style'',
       Attributes = [\<lparr>Key = ''media'', Val = [CHR 0x0A]\<rparr>]\<rparr>,
      \<lparr>Url = ''https://example.com/c.woff'', As = ''font'',
       Attributes = [\<lparr>Key = ''crossorigin'', Val = ''anonymous''\<rparr>]\<rparr>] =
     Inr (''<https://example.com/a.js>;rel=preload;as=script,'' @
          ''<https://example.com/c.woff>;rel=preload;as=font;crossorigin='' @
          [CHR 0x22] @ ''anonymous'' @ [CHR 0x22])
   \<and> isl (formatLinkHeader exampleParse exampleQuotedString
       [\<lparr>Url = ''https://example.com/a.js'', As = ''script'', Attributes = []\<rparr>,
        \<lparr>Url = ''https://example.com/d.js'', As = '''', Attributes = []\<rparr>])
   \<and> isl (formatLinkHeader exampleParse exampleQuotedString
       [\<lparr>Url = ''https://example.com/a.js'', As = ''script'', Attributes = []\<rparr>,
        \<lparr>Url = ''%zz'', As = ''script'', Attributes = []\<rparr>])"
  using formatLinkHeader_all_or_nothing [of
      "[\<lparr>Url = ''https://example.com/a.js'', As = ''script'', Attributes = []\<rparr>,
        \<lparr>Url = ''https://example.com/b.css'', As = ''style'',
         Attributes = [\<lparr>Key = ''media'', Val = [CHR 0x0A]\<rparr>]\<rparr>,
        \<lparr>Url = ''https://example.com/c.woff'', As = ''font'',
         Attributes = [\<lparr>Key = ''crossorigin'', Val = ''anonymous''\<rparr>]\<rparr>]"
      exampleParse exampleQuotedString]
    formatLinkHeader_all_or_nothing [of
      "[\<lparr>Url = ''https://example.com/a.js'', As = ''script'', Attributes = []\<rparr>,
        \<lparr>Url = ''https://example.com/d.js'', As = '''', Attributes = []\<rparr>]"
      exampleParse exampleQuotedString]
    formatLinkHeader_all_or_nothing [of
      "[\<lparr>Url = ''https://example.com/a.js'', As = ''script'', Attributes = []\<rparr>,
        \<lparr>Url = ''%zz'', As = ''script'', Attributes = []\<rparr>]"
      exampleParse exampleQuotedString]
  by (simp add: exampleParse_def exampleQuotedString_def controlBytes_def linkValue_def
      encodable_def)

section \<open>Properties of the header operations\<close>

lemma canonical_stateful:
  "map CanonicalHeaderKey statefulResponseHeaders =
     [''Authentication-Control'', ''Authentication-Info'', ''Clear-Site-Data'',
      ''Optional-Www-Authenticate'', ''Proxy-Authenticate'', ''Proxy-Authentication-Info'',
      ''Public-Key-Pins'', ''Sec-Websocket-Accept'', ''Set-Cookie'', ''Set-Cookie2'',
      ''Setprofile'', ''Strict-Transport-Security'', ''Www-Authenticate'']"
  by code_simp

lemma canonical_set_keys:
  "CanonicalHeaderKey ''Link'' = ''Link''"
  "CanonicalHeaderKey ''Content-Length'' = ''Content-Length''"
  "CanonicalHeaderKey ''X-Content-Type-Options'' = ''X-Content-Type-Options''"
  "CanonicalHeaderKey ''Content-Security-Policy'' = ''Content-Security-Policy''"
  "CanonicalHeaderKey ''Digest'' = ''Digest''"
  by code_simp+

lemma canonical_notModified:
  "map CanonicalHeaderKey statusNotModifiedHeaders =
     [''Cache-Control'', ''Content-Location'', ''Date'', ''Etag'', ''Expires'', ''Vary'']"
  by code_simp

lemma fold_Header_Del:
  "fold (\<lambda>name h. Header_Del h name) names h k =
     (if k \<in> CanonicalHeaderKey ` set names then None else h k)"
  by (induction names arbitrary: h) (auto simp: Header_Del_def)

lemma mutateHeaders_stateful:
  assumes "name \<in> set statefulResponseHeaders"
  shows "mutateHeaders h linkHeader transformed (CanonicalHeaderKey name) = None"
proof -
  have k: "CanonicalHeaderKey name \<in> set (map CanonicalHeaderKey statefulResponseHeaders)"
    using assms by simp
  then have ne: "CanonicalHeaderKey name \<noteq> ''Link''" "CanonicalHeaderKey name \<noteq> ''Content-Length''"
      "CanonicalHeaderKey name \<noteq> ''X-Content-Type-Options''"
      "CanonicalHeaderKey name \<noteq> ''Content-Security-Policy''"
    unfolding canonical_stateful by auto
  have "fold (\<lambda>name h. Header_Del h name) statefulResponseHeaders h (CanonicalHeaderKey name) = None"
    using assms by (simp add: fold_Header_Del)
  then show ?thesis
    using ne by (simp add: mutateHeaders_def Let_def Header_Set_def Header_Del_def canonical_set_keys)
qed

lemma Second_sint: "sint Second = 1000000000"
  by (simp add: Second_def)

lemma mul_Second: "sint ((scast (x :: 32 word) :: 64 word) * Second) = sint x * 1000000000"
proof -
  have b: "- (2 ^ 31) \<le> sint x" "sint x < 2 ^ 31"
    using sint_ge [of x] sint_lt [of x] by simp_all
  have s: "sint (scast x :: 64 word) = sint x"
    by (simp add: sint_up_scast is_up)
  have "sint ((scast x :: 64 word) * Second) = signed_take_bit 63 (sint x * 1000000000)"
    by (simp add: sint_word_ariths s Second_sint)
  also have "\<dots> = sint x * 1000000000"
    using b by (simp add: signed_take_bit_int_eq_self_iff)
  finally show ?thesis .
qed

lemma week_sint: "sint (168 * Hour) = 604800000000000"
  by (simp add: Hour_def Second_def)

lemma day_sint: "sint (- (24 * Hour)) = - 86400000000000"
  by (simp add: Hour_def Second_def)

lemma sint_signatureDuration:
  "sint (signatureDuration m) = min 604800000000000 (sint (MaxAgeSecs m) * 1000000000)"
  by (simp add: signatureDuration_def Let_def word_sless_alt mul_Second week_sint min_def)

lemma Time_Add_day: "Time_Add now (- (24 * Hour)) = now - 86400000000000"
  by (simp add: Time_Add_def day_sint)

section \<open>Properties of the response writer\<close>

lemma rwBody_WriteHeader [simp]: "rwBody (WriteHeader c r) = rwBody r"
  by (simp add: WriteHeader_def)

lemma rwBody_Write [simp]: "rwBody (Write b r) = rwBody r @ [b]"
  by (simp add: Write_def Let_def)

lemma rwBody_LogAndRespond [simp]:
  "rwBody (LogAndRespond e r) = rwBody r @ [ErrorText (errStatusCode e)]"
  by (simp add: LogAndRespond_def)

lemma SXG_proxyImpl [simp]:
  "SXG e \<in> set (rwBody (proxyImpl r h c p s)) \<longleftrightarrow> SXG e \<in> set (rwBody r)"
  by (auto simp: proxyImpl_def Let_def ioCopy_def split: option.splits if_splits)

lemma SXG_proxyConsumed [simp]:
  "SXG e \<in> set (rwBody (proxyConsumed r f)) \<longleftrightarrow> SXG e \<in> set (rwBody r)"
  by (simp add: proxyConsumed_def)

lemma SXG_proxyUnconsumed [simp]:
  "SXG e \<in> set (rwBody (proxyUnconsumed r f)) \<longleftrightarrow> SXG e \<in> set (rwBody r)"
  by (simp add: proxyUnconsumed_def)

lemma SXG_proxyPartiallyConsumed [simp]:
  "SXG e \<in> set (rwBody (proxyPartiallyConsumed r f rest p)) \<longleftrightarrow> SXG e \<in> set (rwBody r)"
  by (simp add: proxyPartiallyConsumed_def)

lemma SXG_serveSignedExchange:
  assumes "SXG e \<in> set (rwBody (serveSignedExchange this resp fr params))"
    and "SXG e \<notin> set (rwBody resp)"
  shows "\<exists>linkHeader transformed digest.
           ResponseHeaders e =
             Header_Set (mutateHeaders (consumedHeader fr) linkHeader transformed) ''Digest'' digest"
  using assms
  by (auto simp: serveSignedExchange_def Let_def MiEncodePayload_def NewExchange_def
      split: sum.splits option.splits prod.splits if_splits; blast)

lemma SXG_consumeAndSign:
  assumes "SXG e \<in> set (rwBody (consumeAndSign this resp fr params))"
    and "SXG e \<notin> set (rwBody resp)"
  shows "\<exists>linkHeader transformed digest.
           ResponseHeaders e =
             Header_Set (mutateHeaders (Header fr) linkHeader transformed) ''Digest'' digest"
  using assms SXG_serveSignedExchange
  by (fastforce simp: consumeAndSign_def split: sum.splits prod.splits if_splits)

lemma bodyBytes_append: "bodyBytes (xs @ ys) = bodyBytes xs @ bodyBytes ys"
  by (induction xs rule: bodyBytes.induct) simp_all

text \<open>
  Claim C3. A fetched body of at least \<^verbatim>\<open>maxSignableBodyLength\<close> bytes (4 MiB; a body of
  exactly that length included) that is read without error is not signed: the client gets
  the upstream status and headers and the whole body, the consumed prefix followed by the
  rest of the stream, and the response is counted as proxied unsigned.
\<close>

theorem oversized_body_is_proxied:
  assumes "maxSignableBodyLength \<le> length (pending (Body fetchResp))"
    and "\<not> broken (Body fetchResp)"
    and "rwWritten resp = None"
  shows "sentStatus (consumeAndSign this resp fetchResp params) = Some (StatusCode fetchResp)
       \<and> sentHeader (consumeAndSign this resp fetchResp params) = rwHeader resp ++ Header fetchResp
       \<and> rwBody (consumeAndSign this resp fetchResp params) =
           rwBody resp @
           Bytes (take maxSignableBodyLength (pending (Body fetchResp))) #
           (if drop maxSignableBodyLength (pending (Body fetchResp)) = [] then []
            else [Bytes (drop maxSignableBodyLength (pending (Body fetchResp)))])
       \<and> bodyBytes (rwBody (consumeAndSign this resp fetchResp params)) =
           bodyBytes (rwBody resp) @ pending (Body fetchResp)
       \<and> promSigned (consumeAndSign this resp fetchResp params) = promSigned resp
       \<and> promProxiedUnsigned (consumeAndSign this resp fetchResp params) =
           promProxiedUnsigned resp + 1"
proof -
  let ?b = "pending (Body fetchResp)"
  let ?n = maxSignableBodyLength
  have r: "consumeAndSign this resp fetchResp params =
      proxyPartiallyConsumed resp fetchResp
        ((Body fetchResp)\<lparr>pending := drop ?n ?b\<rparr>) (take ?n ?b)"
    using assms(1) by (simp add: consumeAndSign_def readAllLimited_def)
  have bytes: "bodyBytes (rwBody resp @ [Bytes (take ?n ?b)] @ [Bytes (drop ?n ?b)]) =
      bodyBytes (rwBody resp) @ ?b"
    by (simp add: bodyBytes_append)
  have bytes0: "drop ?n ?b = [] \<Longrightarrow> bodyBytes (rwBody resp @ [Bytes (take ?n ?b)]) =
      bodyBytes (rwBody resp) @ ?b"
    by (simp add: bodyBytes_append)
  show ?thesis
    unfolding r proxyPartiallyConsumed_def proxyImpl_def Let_def ioCopy_def
    using assms(2,3) bytes bytes0
    by (simp add: WriteHeader_def Write_def sentStatus_def sentHeader_def)
qed

section \<open>Properties of the signed path\<close>

lemma SXG_ServeHTTP:
  assumes "SXG e \<in> set (rwBody (ServeHTTP this resp req))"
    and "SXG e \<notin> set (rwBody resp)"
  shows "\<exists>h linkHeader transformed digest.
           ResponseHeaders e = Header_Set (mutateHeaders h linkHeader transformed) ''Digest'' digest"
proof -
  define resp1 where
    "resp1 = resp\<lparr>rwHeader := Header_Add (rwHeader resp) ''Vary'' ''Accept, AMP-Cache-Transform''\<rparr>"
  have b: "SXG e \<notin> set (rwBody resp1)"
    using assms(2) by (simp add: resp1_def)
  have fold304: "rwBody (fold f names r) = rwBody r"
    if "\<And>name r. rwBody (f name r) = rwBody r" for f :: "string \<Rightarrow> response \<Rightarrow> response" and names r
    using that by (induction names arbitrary: r) auto
  have "\<exists>fr params. SXG e \<in> set (rwBody (consumeAndSign this resp1 fr params))"
    using assms(1) b unfolding ServeHTTP_def Let_def resp1_def [symmetric]
    by (auto simp: fold304 Let_def split: sum.splits option.splits prod.splits if_splits)
  then show ?thesis
    using SXG_consumeAndSign b by blast
qed

text \<open>
  Claim C1. Whatever the handler is given, a signed exchange that it writes to the client
  holds none of the thirteen stateful response headers in its inner response headers: the
  map has no entry under the canonical key of the header, so \<^verbatim>\<open>Get\<close> and
  \<^verbatim>\<open>GetJoined\<close> return the empty string. (The header map of a response that Go has
  read holds canonical keys only.)
\<close>

theorem signed_exchange_no_stateful_header:
  assumes "SXG e \<in> set (rwBody (ServeHTTP this resp req))"
    and "SXG e \<notin> set (rwBody resp)"
    and "name \<in> set statefulResponseHeaders"
  shows "ResponseHeaders e (CanonicalHeaderKey name) = None
         \<and> Header_Get (ResponseHeaders e) name = ''''
         \<and> GetJoined (ResponseHeaders e) name = ''''"
proof -
  obtain h linkHeader transformed digest where
    e: "ResponseHeaders e = Header_Set (mutateHeaders h linkHeader transformed) ''Digest'' digest"
    using SXG_ServeHTTP [OF assms(1,2)] by blast
  have "CanonicalHeaderKey name \<in> set (map CanonicalHeaderKey statefulResponseHeaders)"
    using assms(3) by simp
  then have "CanonicalHeaderKey name \<noteq> ''Digest''"
    unfolding canonical_stateful by auto
  then have "ResponseHeaders e (CanonicalHeaderKey name) = None"
    using mutateHeaders_stateful [OF assms(3)]
    by (simp add: e Header_Set_def canonical_set_keys)
  then show ?thesis
    by (simp add: Header_Get_def GetJoined_def)
qed

text \<open>
  Claim C2. With the metadata \<open>m\<close> that the transformer returned, every signed exchange
  that \<^verbatim>\<open>serveSignedExchange\<close> writes has \<open>date = now - 24 h\<close> and
  \<open>expires = date + min (7 days) (MaxAgeSecs seconds)\<close>, so at most seven days after
  \<open>date\<close>, and \<open>expires\<close> is after \<open>now\<close>. When the computed \<open>expires\<close> is not after
  \<open>now\<close>, the response is the unsigned proxy of the fetched response (with its headers as
  they are at that point). Times are in nanoseconds.
\<close>

theorem signature_validity_window:
  assumes "Process this
             ((getTransformerRequest this (body fetchResp) (url_String (signURL params)))
                \<lparr>TransformVersion := transformVersion params\<rparr>) = Inr (transformed, m)"
  shows "(\<forall>e. SXG e \<in> set (rwBody (serveSignedExchange this resp fetchResp params)) \<longrightarrow>
              SXG e \<notin> set (rwBody resp) \<longrightarrow>
              (\<exists>s. Signature e = Some s
                 \<and> Date s = timeNow this - 86400000000000
                 \<and> Expires s = Date s + min 604800000000000 (sint (MaxAgeSecs m) * 1000000000)
                 \<and> Expires s - Date s \<le> 604800000000000
                 \<and> timeNow this < Expires s))
       \<and> (\<not> timeNow this < timeNow this - 86400000000000
                + min 604800000000000 (sint (MaxAgeSecs m) * 1000000000) \<longrightarrow>
            (\<exists>h. serveSignedExchange this resp fetchResp params =
                    proxyConsumed resp (fetchResp\<lparr>consumedHeader := h\<rparr>)))"
proof (intro conjI allI impI)
  fix e
  assume "SXG e \<in> set (rwBody (serveSignedExchange this resp fetchResp params))"
    and "SXG e \<notin> set (rwBody resp)"
  then show "\<exists>s. Signature e = Some s
                 \<and> Date s = timeNow this - 86400000000000
                 \<and> Expires s = Date s + min 604800000000000 (sint (MaxAgeSecs m) * 1000000000)
                 \<and> Expires s - Date s \<le> 604800000000000
                 \<and> timeNow this < Expires s"
    using assms
    by (auto simp: serveSignedExchange_def Let_def MiEncodePayload_def NewExchange_def
        Time_Add_day sint_signatureDuration Time_Add_def [of _ "signatureDuration m"]
        split: sum.splits option.splits prod.splits if_splits)
next
  assume late: "\<not> timeNow this < timeNow this - 86400000000000
                + min 604800000000000 (sint (MaxAgeSecs m) * 1000000000)"
  have same: "fetchResp = fetchResp\<lparr>consumedHeader := consumedHeader fetchResp\<rparr>"
    by simp
  show "\<exists>h. serveSignedExchange this resp fetchResp params =
                    proxyConsumed resp (fetchResp\<lparr>consumedHeader := h\<rparr>)"
    using assms late same
    by (auto simp: serveSignedExchange_def Let_def MiEncodePayload_def NewExchange_def
        Time_Add_day sint_signatureDuration Time_Add_def [of _ "signatureDuration m"]
        split: sum.splits option.splits prod.splits if_splits; metis)
qed

lemma ServeHTTP_signs_or_proxies:
  assumes form: "parseFormError req = None"
    and route: "Params req ''signURL'' = Some sign \<and> sign \<noteq> '''' \<and> fetch = '''' \<or>
                (Params req ''signURL'' = None \<or> Params req ''signURL'' = Some '''') \<and>
                Form req ''sign'' = [sign] \<and>
                (Form req ''fetch'' = [] \<and> fetch = '''' \<or> Form req ''fetch'' = [fetch])"
    and urls: "parseURLs this fetch sign = Inr (fetchURL, signURL', errorOnStatefulHeaders)"
    and fetched: "fetchURLAndMeasure this fetchURL (Host req) (Proto req) (reqHeader req) =
                    Inr (fetchReq, fetchResp)"
    and healthy: "shouldPackage this = None"
    and negotiated:
      "if requireHeaders this
       then ShouldSendSXG this (GetJoined (reqHeader req) ''AMP-Cache-Transform'') = (act, version) \<and>
            act \<noteq> '''' \<and> CanSatisfy this (GetJoined (reqHeader req) ''Accept'')
       else SelectVersion this = Inr version \<and> act = ''''"
    and ok: "StatusCode fetchResp = 200"
    and valid: "validateFetch this fetchReq fetchResp = None"
    and stateless: "errorOnStatefulHeaders \<longrightarrow>
                    (\<forall>name \<in> set statefulResponseHeaders. GetJoined (Header fetchResp) name = '''')"
    and novariants: "Header_Get (Header fetchResp) ''Variants'' = ''''"
                    "Header_Get (Header fetchResp) ''Variant-Key'' = ''''"
                    "Header_Get (Header fetchResp) ''Variants-04'' = ''''"
                    "Header_Get (Header fetchResp) ''Variant-Key-04'' = ''''"
    and small: "length (pending (Body fetchResp)) < maxSignableBodyLength"
               "\<not> broken (Body fetchResp)"
    and transformed: "Process this
             ((getTransformerRequest this (pending (Body fetchResp)) (url_String signURL'))
                \<lparr>TransformVersion := version\<rparr>) = Inr (transformed, m)"
    and link: "formatLinkHeader (parsePreloadURL this) (QuotedString this) (Preloads m) = Inr linkHeader"
    and encoded: "miEncode this transformed miRecordSize = Inr (payload, digest)"
    and cert: "genCertURL this signURL' = Inr certURL"
    and validity: "parseValidityMapPath this = Inr href"
    and signs: "\<forall>e s. AddSignatureHeader this e s = None" "\<forall>e. exchangeWrite this e = None"
               "clientWriteError this = None"
  shows "ServeHTTP this newResponse req =
           (if 86400 < sint (MaxAgeSecs m) then
              \<lparr>rwHeader = (if act \<noteq> '''' then [''Vary'' \<mapsto> [''Accept, AMP-Cache-Transform''],
                                                  CanonicalHeaderKey ''AMP-Cache-Transform'' \<mapsto> [act]]
                            else [''Vary'' \<mapsto> [''Accept, AMP-Cache-Transform'']])
                           (''Content-Type'' \<mapsto> [SxgContentType],
                            ''Cache-Control'' \<mapsto> [''no-transform, max-age=0''],
                            ''X-Content-Type-Options'' \<mapsto> [''nosniff'']),
               rwWritten = Some (200,
                           (if act \<noteq> '''' then [''Vary'' \<mapsto> [''Accept, AMP-Cache-Transform''],
                                                  CanonicalHeaderKey ''AMP-Cache-Transform'' \<mapsto> [act]]
                            else [''Vary'' \<mapsto> [''Accept, AMP-Cache-Transform'']])
                           (''Content-Type'' \<mapsto> [SxgContentType],
                            ''Cache-Control'' \<mapsto> [''no-transform, max-age=0''],
                            ''X-Content-Type-Options'' \<mapsto> [''nosniff''])),
               rwBody = [SXG \<lparr>Version = SxgVersion, RequestURI = url_String signURL',
                              RequestMethod = ''GET'', RequestHeaders = Map.empty,
                              ResponseStatus = 200,
                              ResponseHeaders =
                                Header_Set (mutateHeaders (Header fetchResp) linkHeader transformed)
                                  ''Digest'' digest,
                              Payload = payload,
                              Signature = Some
                                \<lparr>Date = timeNow this - 86400000000000,
                                 Expires = timeNow this - 86400000000000 +
                                           min 604800000000000 (sint (MaxAgeSecs m) * 1000000000),
                                 CertUrl = certURL,
                                 ValidityUrl = ResolveReference this signURL' href\<rparr>\<rparr>],
               promSigned = 1, promProxiedUnsigned = 0\<rparr>
            else
              \<lparr>rwHeader = [''Vary'' \<mapsto> [''Accept, AMP-Cache-Transform'']] ++
                            mutateHeaders (Header fetchResp) linkHeader transformed,
               rwWritten = Some (200, [''Vary'' \<mapsto> [''Accept, AMP-Cache-Transform'']] ++
                            mutateHeaders (Header fetchResp) linkHeader transformed),
               rwBody = [Bytes (pending (Body fetchResp))],
               promSigned = 0, promProxiedUnsigned = 1\<rparr>)"
proof -
  have vary: "CanonicalHeaderKey ''Vary'' = ''Vary''" 
    "CanonicalHeaderKey ''Content-Type'' = ''Content-Type''"
    "CanonicalHeaderKey ''Cache-Control'' = ''Cache-Control''"
    "CanonicalHeaderKey ''X-Content-Type-Options'' = ''X-Content-Type-Options''"
    by code_simp+
  have nostate: "\<not> list_ex (\<lambda>name. errorOnStatefulHeaders \<and> GetJoined (Header fetchResp) name \<noteq> '''')
                    statefulResponseHeaders"
    using stateless by (auto simp: list_ex_iff)
  have read: "readAllLimited (Body fetchResp) maxSignableBodyLength =
      (Inr (pending (Body fetchResp)), (Body fetchResp)\<lparr>pending := [], broken := False\<rparr>)"
    using small by (simp add: readAllLimited_def)
  have cs: "consumeAndSign this r fetchResp p =
      serveSignedExchange this r
        \<lparr>body = pending (Body fetchResp), consumedStatusCode = 200, consumedHeader = Header fetchResp\<rparr> p"
    for r p
    using small by (simp add: consumeAndSign_def read ok)
  have pick: "ServeHTTP this newResponse req =
      serveSignedExchange this
        (newResponse\<lparr>rwHeader := [''Vary'' \<mapsto> [''Accept, AMP-Cache-Transform'']]\<rparr>)
        \<lparr>body = pending (Body fetchResp), consumedStatusCode = 200, consumedHeader = Header fetchResp\<rparr>
        \<lparr>signURL = signURL', ampCacheTransformHeader = act, transformVersion = version\<rparr>"
    using route form urls fetched healthy negotiated ok valid nostate novariants
    by (auto simp: ServeHTTP_def Let_def FormValue_def cs Header_Add_def vary newResponse_def
        split: if_splits)
  show ?thesis
    unfolding pick
    using transformed link encoded cert validity signs
    by (simp add: serveSignedExchange_def Let_def MiEncodePayload_def NewExchange_def
        Time_Add_day sint_signatureDuration Time_Add_def [of _ "signatureDuration m"]
        proxyConsumed_def proxyImpl_def WriteHeader_def Write_def Header_Set_def vary
        newResponse_def min_def)
qed

lemma example_novariants:
  "Header_Get (Header exampleDocument) ''Variants'' = ''''"
  "Header_Get (Header exampleDocument) ''Variant-Key'' = ''''"
  "Header_Get (Header exampleDocument) ''Variants-04'' = ''''"
  "Header_Get (Header exampleDocument) ''Variant-Key-04'' = ''''"
  by code_simp+

lemma example_ServeHTTP:
  assumes "req = exampleRequest \<or> req = examplePathRequest"
  shows "ServeHTTP (exampleSigner exampleDocument maxAge) newResponse req =
     (if 86400 < sint maxAge then
        \<lparr>rwHeader = [''Vary'' \<mapsto> [''Accept, AMP-Cache-Transform''],
                      ''Content-Type'' \<mapsto> [SxgContentType],
                      ''Cache-Control'' \<mapsto> [''no-transform, max-age=0''],
                      ''X-Content-Type-Options'' \<mapsto> [''nosniff'']],
         rwWritten = Some (200, [''Vary'' \<mapsto> [''Accept, AMP-Cache-Transform''],
                      ''Content-Type'' \<mapsto> [SxgContentType],
                      ''Cache-Control'' \<mapsto> [''no-transform, max-age=0''],
                      ''X-Content-Type-Options'' \<mapsto> [''nosniff'']]),
         rwBody = [SXG (exampleExchange maxAge)],
         promSigned = 1, promProxiedUnsigned = 0\<rparr>
      else
        \<lparr>rwHeader = [''Vary'' \<mapsto> [''Accept, AMP-Cache-Transform'']] ++
                      mutateHeaders (Header exampleDocument) '''' ''<html amp></html>'',
         rwWritten = Some (200, [''Vary'' \<mapsto> [''Accept, AMP-Cache-Transform'']] ++
                      mutateHeaders (Header exampleDocument) '''' ''<html amp></html>''),
         rwBody = [Bytes ''<html amp></html>''],
         promSigned = 0, promProxiedUnsigned = 1\<rparr>)"
proof -
  let ?S = "exampleSigner exampleDocument maxAge"
  let ?sign = "''https://example.com/amp.html''"
  have form: "parseFormError req = None"
    using assms by (auto simp: exampleRequest_def examplePathRequest_def)
  have route: "Params req ''signURL'' = Some ?sign \<and> ?sign \<noteq> '''' \<and> '''' = '''' \<or>
                (Params req ''signURL'' = None \<or> Params req ''signURL'' = Some '''') \<and>
                Form req ''sign'' = [?sign] \<and>
                (Form req ''fetch'' = [] \<and> '''' = '''' \<or> Form req ''fetch'' = [''''])"
    using assms by (auto simp: exampleRequest_def examplePathRequest_def)
  have urls: "parseURLs ?S '''' ?sign = Inr (URL ?sign, URL ?sign, False)"
    by (simp add: exampleSigner_def)
  have fetched: "fetchURLAndMeasure ?S (URL ?sign) (Host req) (Proto req) (reqHeader req) =
      Inr (\<lparr>fetchedURL = URL ?sign, fetchHost = Host req, fetchHeader = Map.empty\<rparr>, exampleDocument)"
    by (simp add: exampleSigner_def)
  have healthy: "shouldPackage ?S = None"
    by (simp add: exampleSigner_def)
  have negotiated: "if requireHeaders ?S
       then ShouldSendSXG ?S (GetJoined (reqHeader req) ''AMP-Cache-Transform'') = ('''', 1) \<and>
            '''' \<noteq> '''' \<and> CanSatisfy ?S (GetJoined (reqHeader req) ''Accept'')
       else SelectVersion ?S = Inr 1 \<and> '''' = ''''"
    by (simp add: exampleSigner_def)
  have ok: "StatusCode exampleDocument = 200"
    by (simp add: exampleDocument_def)
  have valid: "validateFetch ?S
      \<lparr>fetchedURL = URL ?sign, fetchHost = Host req, fetchHeader = Map.empty\<rparr> exampleDocument = None"
    by (simp add: exampleSigner_def)
  have stateless: "False \<longrightarrow>
      (\<forall>name \<in> set statefulResponseHeaders. GetJoined (Header exampleDocument) name = '''')"
    by simp
  have small: "length (pending (Body exampleDocument)) < maxSignableBodyLength"
    "\<not> broken (Body exampleDocument)"
    by (simp_all add: exampleDocument_def maxSignableBodyLength_def)
  have transformed: "Process ?S
       ((getTransformerRequest ?S (pending (Body exampleDocument)) (url_String (URL ?sign)))
          \<lparr>TransformVersion := 1\<rparr>) =
       Inr (''<html amp></html>'', \<lparr>Preloads = [], MaxAgeSecs = maxAge\<rparr>)"
    by (simp add: exampleSigner_def exampleDocument_def getTransformerRequest_def)
  have link: "formatLinkHeader (parsePreloadURL ?S) (QuotedString ?S)
      (Preloads \<lparr>Preloads = [], MaxAgeSecs = maxAge\<rparr>) = Inr ''''"
    by (simp add: formatLinkHeader_def)
  have encoded: "miEncode ?S ''<html amp></html>'' miRecordSize =
      Inr (''<html amp></html>'', ''mi-sha256-03=example'')"
    by (simp add: exampleSigner_def)
  have cert: "genCertURL ?S (URL ?sign) = Inr (URL ''https://example.com/amppkg/cert/example'')"
    by (simp add: exampleSigner_def)
  have validity: "parseValidityMapPath ?S = Inr (URL ''/amppkg/validity'')"
    by (simp add: exampleSigner_def)
  have signs: "\<forall>e s. AddSignatureHeader ?S e s = None" "\<forall>e. exchangeWrite ?S e = None"
    "clientWriteError ?S = None"
    by (simp_all add: exampleSigner_def)
  have now: "timeNow ?S = 1700000000000000000"
    and res: "ResolveReference ?S (URL ?sign) (URL ''/amppkg/validity'') =
        URL ''https://example.com/amppkg/validity''"
    by (simp_all add: exampleSigner_def)
  have pend: "pending (Body exampleDocument) = ''<html amp></html>''"
    by (simp add: exampleDocument_def)
  show ?thesis
    using ServeHTTP_signs_or_proxies [OF form route urls fetched healthy negotiated ok valid
        stateless example_novariants small transformed link encoded cert validity signs]
    by (simp add: exampleExchange_def now res pend)
qed

lemma mutateHeaders_other:
  assumes "k \<notin> set (map CanonicalHeaderKey statefulResponseHeaders)"
    and "k \<noteq> ''Link''" "k \<noteq> ''Content-Length''" "k \<noteq> ''X-Content-Type-Options''"
        "k \<noteq> ''Content-Security-Policy''"
  shows "mutateHeaders h linkHeader transformed k = h k"
proof -
  have "fold (\<lambda>name h. Header_Del h name) statefulResponseHeaders h k = h k"
    using assms(1) by (simp add: fold_Header_Del)
  then show ?thesis
    using assms(2-)
    by (simp add: mutateHeaders_def Let_def Header_Set_def Header_Del_def canonical_set_keys)
qed

text \<open>
  Claim C4, as amended. For an upstream 200 response that passes every gate and every
  later step, the handler signs when the metadata reports a max-age above 86400 seconds:
  the response is a 200 with the content type of signed exchanges whose signature has
  \<open>expires - date = min 604800 MaxAgeSecs\<close> seconds. A max-age of at most 86400 seconds,
  such as 3600, puts \<open>expires\<close> at or before \<open>now\<close> since \<open>date\<close> is \<open>now - 24 h\<close>, and the
  fetched document is proxied unsigned.
\<close>

theorem happy_sign:
  assumes form: "parseFormError req = None"
    and route: "Params req ''signURL'' = Some sign \<and> sign \<noteq> '''' \<and> fetch = '''' \<or>
                (Params req ''signURL'' = None \<or> Params req ''signURL'' = Some '''') \<and>
                Form req ''sign'' = [sign] \<and>
                (Form req ''fetch'' = [] \<and> fetch = '''' \<or> Form req ''fetch'' = [fetch])"
    and urls: "parseURLs this fetch sign = Inr (fetchURL, signURL', errorOnStatefulHeaders)"
    and fetched: "fetchURLAndMeasure this fetchURL (Host req) (Proto req) (reqHeader req) =
                    Inr (fetchReq, fetchResp)"
    and healthy: "shouldPackage this = None"
    and negotiated:
      "if requireHeaders this
       then ShouldSendSXG this (GetJoined (reqHeader req) ''AMP-Cache-Transform'') = (act, version) \<and>
            act \<noteq> '''' \<and> CanSatisfy this (GetJoined (reqHeader req) ''Accept'')
       else SelectVersion this = Inr version \<and> act = ''''"
    and ok: "StatusCode fetchResp = 200"
    and valid: "validateFetch this fetchReq fetchResp = None"
    and stateless: "errorOnStatefulHeaders \<longrightarrow>
                    (\<forall>name \<in> set statefulResponseHeaders. GetJoined (Header fetchResp) name = '''')"
    and novariants: "Header_Get (Header fetchResp) ''Variants'' = ''''"
                    "Header_Get (Header fetchResp) ''Variant-Key'' = ''''"
                    "Header_Get (Header fetchResp) ''Variants-04'' = ''''"
                    "Header_Get (Header fetchResp) ''Variant-Key-04'' = ''''"
    and small: "length (pending (Body fetchResp)) < maxSignableBodyLength"
               "\<not> broken (Body fetchResp)"
    and transformed: "Process this
             ((getTransformerRequest this (pending (Body fetchResp)) (url_String signURL'))
                \<lparr>TransformVersion := version\<rparr>) = Inr (transformed, m)"
    and link: "formatLinkHeader (parsePreloadURL this) (QuotedString this) (Preloads m) = Inr linkHeader"
    and encoded: "miEncode this transformed miRecordSize = Inr (payload, digest)"
    and cert: "genCertURL this signURL' = Inr certURL"
    and validity: "parseValidityMapPath this = Inr href"
    and signs: "\<forall>e s. AddSignatureHeader this e s = None" "\<forall>e. exchangeWrite this e = None"
               "clientWriteError this = None"
  shows "(86400 < sint (MaxAgeSecs m) \<longrightarrow>
            sentStatus (ServeHTTP this newResponse req) = Some 200
          \<and> Header_Get (sentHeader (ServeHTTP this newResponse req)) ''Content-Type'' = SxgContentType
          \<and> (\<exists>e s. rwBody (ServeHTTP this newResponse req) = [SXG e] \<and> Signature e = Some s
                 \<and> Expires s - Date s = min 604800 (sint (MaxAgeSecs m)) * 1000000000))
       \<and> (sint (MaxAgeSecs m) \<le> 86400 \<longrightarrow>
            sentStatus (ServeHTTP this newResponse req) = Some 200
          \<and> rwBody (ServeHTTP this newResponse req) = [Bytes (pending (Body fetchResp))]
          \<and> promSigned (ServeHTTP this newResponse req) = 0
          \<and> promProxiedUnsigned (ServeHTTP this newResponse req) = 1)"
proof -
  have ct: "CanonicalHeaderKey ''Content-Type'' = ''Content-Type''"
    by code_simp
  have m: "min 604800000000000 (sint (MaxAgeSecs m) * 1000000000) =
           min 604800 (sint (MaxAgeSecs m)) * 1000000000"
    by (simp add: min_def)
  show ?thesis
    unfolding ServeHTTP_signs_or_proxies [OF assms]
    by (simp add: sentStatus_def sentHeader_def Header_Get_def ct m)
qed

text \<open>
  The example signer with a max-age of seven days signs the example document; with a
  max-age of one hour it proxies it.
\<close>

theorem happy_sign_witness:
  "sentStatus (ServeHTTP (exampleSigner exampleDocument 604800) newResponse exampleRequest) = Some 200
   \<and> Header_Get (sentHeader (ServeHTTP (exampleSigner exampleDocument 604800) newResponse exampleRequest))
        ''Content-Type'' = SxgContentType
   \<and> (\<exists>e s. rwBody (ServeHTTP (exampleSigner exampleDocument 604800) newResponse exampleRequest) = [SXG e]
          \<and> Signature e = Some s \<and> Expires s - Date s = 604800000000000)
   \<and> rwBody (ServeHTTP (exampleSigner exampleDocument 3600) newResponse exampleRequest) =
        [Bytes ''<html amp></html>'']"
proof -
  let ?sign = "''https://example.com/amp.html''"
  have facts:
    "parseFormError exampleRequest = None"
    "Params exampleRequest ''signURL'' = Some ?sign \<and> ?sign \<noteq> '''' \<and> '''' = '''' \<or>
       (Params exampleRequest ''signURL'' = None \<or> Params exampleRequest ''signURL'' = Some '''') \<and>
       Form exampleRequest ''sign'' = [?sign] \<and>
       (Form exampleRequest ''fetch'' = [] \<and> '''' = '''' \<or> Form exampleRequest ''fetch'' = [''''])"
    "parseURLs (exampleSigner exampleDocument maxAge) '''' ?sign = Inr (URL ?sign, URL ?sign, False)"
    "fetchURLAndMeasure (exampleSigner exampleDocument maxAge) (URL ?sign) (Host exampleRequest)
       (Proto exampleRequest) (reqHeader exampleRequest) =
       Inr (\<lparr>fetchedURL = URL ?sign, fetchHost = Host exampleRequest, fetchHeader = Map.empty\<rparr>,
            exampleDocument)"
    "shouldPackage (exampleSigner exampleDocument maxAge) = None"
    "if requireHeaders (exampleSigner exampleDocument maxAge)
       then ShouldSendSXG (exampleSigner exampleDocument maxAge)
              (GetJoined (reqHeader exampleRequest) ''AMP-Cache-Transform'') = ('''', 1) \<and>
            '''' \<noteq> '''' \<and> CanSatisfy (exampleSigner exampleDocument maxAge)
              (GetJoined (reqHeader exampleRequest) ''Accept'')
       else SelectVersion (exampleSigner exampleDocument maxAge) = Inr 1 \<and> '''' = ''''"
    "StatusCode exampleDocument = 200"
    "validateFetch (exampleSigner exampleDocument maxAge)
       \<lparr>fetchedURL = URL ?sign, fetchHost = Host exampleRequest, fetchHeader = Map.empty\<rparr>
       exampleDocument = None"
    "False \<longrightarrow> (\<forall>name \<in> set statefulResponseHeaders. GetJoined (Header exampleDocument) name = '''')"
    for maxAge
    by (simp_all add: exampleSigner_def exampleRequest_def exampleDocument_def)
  have more:
    "length (pending (Body exampleDocument)) < maxSignableBodyLength"
    "\<not> broken (Body exampleDocument)"
    "Process (exampleSigner exampleDocument maxAge)
       ((getTransformerRequest (exampleSigner exampleDocument maxAge)
           (pending (Body exampleDocument)) (url_String (URL ?sign)))
          \<lparr>TransformVersion := 1\<rparr>) =
       Inr (''<html amp></html>'', \<lparr>Preloads = [], MaxAgeSecs = maxAge\<rparr>)"
    "formatLinkHeader (parsePreloadURL (exampleSigner exampleDocument maxAge))
       (QuotedString (exampleSigner exampleDocument maxAge))
       (Preloads \<lparr>Preloads = [], MaxAgeSecs = maxAge\<rparr>) = Inr ''''"
    "miEncode (exampleSigner exampleDocument maxAge) ''<html amp></html>'' miRecordSize =
       Inr (''<html amp></html>'', ''mi-sha256-03=example'')"
    "genCertURL (exampleSigner exampleDocument maxAge) (URL ?sign) =
       Inr (URL ''https://example.com/amppkg/cert/example'')"
    "parseValidityMapPath (exampleSigner exampleDocument maxAge) = Inr (URL ''/amppkg/validity'')"
    "\<forall>e s. AddSignatureHeader (exampleSigner exampleDocument maxAge) e s = None"
    "\<forall>e. exchangeWrite (exampleSigner exampleDocument maxAge) e = None"
    "clientWriteError (exampleSigner exampleDocument maxAge) = None"
    for maxAge
    by (simp_all add: exampleSigner_def exampleDocument_def maxSignableBodyLength_def
        getTransformerRequest_def formatLinkHeader_def)
  have pend: "pending (Body exampleDocument) = ''<html amp></html>''"
    by (simp add: exampleDocument_def)
  show ?thesis
    using happy_sign [OF facts example_novariants more, of 604800]
      happy_sign [OF facts example_novariants more, of 3600]
    by (simp add: pend)
qed

text \<open>
  Claim C4 as it was stated fails: with a max-age of 3600 seconds the example document is
  sent as it is, with its own content type, and nothing is signed.
\<close>

theorem happy_sign_counterexample:
  "rwBody (ServeHTTP (exampleSigner exampleDocument 3600) newResponse exampleRequest) =
     [Bytes ''<html amp></html>'']
   \<and> Header_Get (sentHeader (ServeHTTP (exampleSigner exampleDocument 3600) newResponse exampleRequest))
        ''Content-Type'' = ''text/html''
   \<and> promSigned (ServeHTTP (exampleSigner exampleDocument 3600) newResponse exampleRequest) = 0
   \<and> promProxiedUnsigned (ServeHTTP (exampleSigner exampleDocument 3600) newResponse exampleRequest) = 1"
proof -
  have ct: "CanonicalHeaderKey ''Content-Type'' = ''Content-Type''"
    by code_simp
  have "mutateHeaders (Header exampleDocument) '''' ''<html amp></html>'' ''Content-Type'' =
        Header exampleDocument ''Content-Type''"
    by (rule mutateHeaders_other) (simp_all add: canonical_stateful)
  then have h: "mutateHeaders (Header exampleDocument) '''' ''<html amp></html>'' ''Content-Type'' =
        Some [''text/html'']"
    by (simp add: exampleDocument_def)
  show ?thesis
    by (simp add: example_ServeHTTP sentHeader_def Header_Get_def ct map_add_def h)
qed

section \<open>Properties of the other paths\<close>

lemma copy304_other:
  "rwWritten (fold (\<lambda>name r. if GetJoined H name \<noteq> '''' then r\<lparr>rwHeader := Header_Set (rwHeader r) name (GetJoined H name)\<rparr> else r) names r) = rwWritten r
   \<and> rwBody (fold (\<lambda>name r. if GetJoined H name \<noteq> '''' then r\<lparr>rwHeader := Header_Set (rwHeader r) name (GetJoined H name)\<rparr> else r) names r) = rwBody r
   \<and> promSigned (fold (\<lambda>name r. if GetJoined H name \<noteq> '''' then r\<lparr>rwHeader := Header_Set (rwHeader r) name (GetJoined H name)\<rparr> else r) names r) = promSigned r"
  by (induction names arbitrary: r) (simp_all add: Let_def)

lemma copy304_dom:
  "dom (rwHeader (fold (\<lambda>name r. if GetJoined H name \<noteq> '''' then r\<lparr>rwHeader := Header_Set (rwHeader r) name (GetJoined H name)\<rparr> else r) names r)) =
   dom (rwHeader r) \<union> CanonicalHeaderKey ` {name \<in> set names. GetJoined H name \<noteq> ''''}"
  by (induction names arbitrary: r) (auto simp: Let_def Header_Set_def)

lemma copy304_untouched:
  "k \<notin> CanonicalHeaderKey ` set names \<Longrightarrow>
   rwHeader (fold (\<lambda>name r. if GetJoined H name \<noteq> '''' then r\<lparr>rwHeader := Header_Set (rwHeader r) name (GetJoined H name)\<rparr> else r) names r) k = rwHeader r k"
  by (induction names arbitrary: r) (auto simp: Let_def Header_Set_def)

lemma copy304_value:
  "distinct (map CanonicalHeaderKey names) \<Longrightarrow> name \<in> set names \<Longrightarrow> GetJoined H name \<noteq> '''' \<Longrightarrow>
   rwHeader (fold (\<lambda>name r. if GetJoined H name \<noteq> '''' then r\<lparr>rwHeader := Header_Set (rwHeader r) name (GetJoined H name)\<rparr> else r) names r) (CanonicalHeaderKey name) = Some [GetJoined H name]"
proof (induction names arbitrary: r)
  case Nil
  then show ?case by simp
next
  case (Cons a names)
  show ?case
  proof (cases "name = a")
    case True
    have "CanonicalHeaderKey a \<notin> CanonicalHeaderKey ` set names"
      using Cons.prems(1) by auto
    then show ?thesis
      using Cons.prems(3) True
      by (simp add: copy304_untouched Let_def Header_Set_def)
  next
    case False
    then have "name \<in> set names" using Cons.prems(2) by simp
    then show ?thesis
      using Cons.IH Cons.prems(1,3) by simp
  qed
qed

lemma ServeHTTP_not_modified:
  assumes form: "parseFormError req = None"
    and route: "Params req ''signURL'' = Some sign \<and> sign \<noteq> '''' \<and> fetch = '''' \<or>
                (Params req ''signURL'' = None \<or> Params req ''signURL'' = Some '''') \<and>
                Form req ''sign'' = [sign] \<and>
                (Form req ''fetch'' = [] \<and> fetch = '''' \<or> Form req ''fetch'' = [fetch])"
    and urls: "parseURLs this fetch sign = Inr (fetchURL, signURL', errorOnStatefulHeaders)"
    and fetched: "fetchURLAndMeasure this fetchURL (Host req) (Proto req) (reqHeader req) =
                    Inr (fetchReq, fetchResp)"
    and healthy: "shouldPackage this = None"
    and negotiated:
      "if requireHeaders this
       then ShouldSendSXG this (GetJoined (reqHeader req) ''AMP-Cache-Transform'') = (act, version) \<and>
            act \<noteq> '''' \<and> CanSatisfy this (GetJoined (reqHeader req) ''Accept'')
       else SelectVersion this = Inr version \<and> act = ''''"
    and status: "StatusCode fetchResp = 304"
  shows "ServeHTTP this newResponse req =
     WriteHeader 304
          (fold (\<lambda>name r. if GetJoined (Header fetchResp) name \<noteq> '''' then r\<lparr>rwHeader := Header_Set (rwHeader r) name (GetJoined (Header fetchResp) name)\<rparr> else r)
             statusNotModifiedHeaders
             (newResponse\<lparr>rwHeader := [''Vary'' \<mapsto> [''Accept, AMP-Cache-Transform'']]\<rparr>))"
proof -
  have vary: "CanonicalHeaderKey ''Vary'' = ''Vary''"
    by code_simp
  show ?thesis
    using route form urls fetched healthy negotiated status
    by (auto simp: ServeHTTP_def Let_def FormValue_def Header_Add_def vary newResponse_def
        split: if_splits)
qed

text \<open>
  Claim C6, as amended. When the request is admitted, the fetch succeeds and the health and
  negotiation gates pass, an upstream 304 gives a 304 with no body whose header names are
  \<^verbatim>\<open>Vary\<close>, which the handler always adds, and those of the six listed headers whose joined
  upstream value is not empty; each of the other five listed headers that is copied holds
  its joined upstream value.
\<close>

theorem not_modified_headers:
  assumes form: "parseFormError req = None"
    and route: "Params req ''signURL'' = Some sign \<and> sign \<noteq> '''' \<and> fetch = '''' \<or>
                (Params req ''signURL'' = None \<or> Params req ''signURL'' = Some '''') \<and>
                Form req ''sign'' = [sign] \<and>
                (Form req ''fetch'' = [] \<and> fetch = '''' \<or> Form req ''fetch'' = [fetch])"
    and urls: "parseURLs this fetch sign = Inr (fetchURL, signURL', errorOnStatefulHeaders)"
    and fetched: "fetchURLAndMeasure this fetchURL (Host req) (Proto req) (reqHeader req) =
                    Inr (fetchReq, fetchResp)"
    and healthy: "shouldPackage this = None"
    and negotiated:
      "if requireHeaders this
       then ShouldSendSXG this (GetJoined (reqHeader req) ''AMP-Cache-Transform'') = (act, version) \<and>
            act \<noteq> '''' \<and> CanSatisfy this (GetJoined (reqHeader req) ''Accept'')
       else SelectVersion this = Inr version \<and> act = ''''"
    and status: "StatusCode fetchResp = 304"
  shows "sentStatus (ServeHTTP this newResponse req) = Some 304
       \<and> rwBody (ServeHTTP this newResponse req) = []
       \<and> dom (sentHeader (ServeHTTP this newResponse req)) =
           insert ''Vary'' (CanonicalHeaderKey `
             {name \<in> set statusNotModifiedHeaders. GetJoined (Header fetchResp) name \<noteq> ''''})
       \<and> (\<forall>name \<in> set statusNotModifiedHeaders.
             name \<noteq> ''Vary'' \<longrightarrow> GetJoined (Header fetchResp) name \<noteq> '''' \<longrightarrow>
             sentHeader (ServeHTTP this newResponse req) (CanonicalHeaderKey name) =
               Some [GetJoined (Header fetchResp) name])"
proof -
  have d: "distinct (map CanonicalHeaderKey statusNotModifiedHeaders)"
    unfolding canonical_notModified by simp
  show ?thesis
    unfolding ServeHTTP_not_modified [OF assms]
    by (simp add: sentStatus_def sentHeader_def WriteHeader_def copy304_other copy304_dom
        copy304_value [OF d] newResponse_def)
qed

text \<open>
  Claim C6 as it was stated fails: the upstream 304 of the example has no \<^verbatim>\<open>Vary\<close>
  header and the response has one.
\<close>

theorem not_modified_counterexample:
  "sentStatus (ServeHTTP (exampleSigner exampleNotModified 604800) newResponse exampleRequest) = Some 304
   \<and> Header exampleNotModified ''Vary'' = None
   \<and> sentHeader (ServeHTTP (exampleSigner exampleNotModified 604800) newResponse exampleRequest) ''Vary''
       = Some [''Accept, AMP-Cache-Transform'']"
proof -
  have c: "CanonicalHeaderKey ''Vary'' = ''Vary''" "CanonicalHeaderKey ''Cache-Control'' = ''Cache-Control''"
    "CanonicalHeaderKey ''Content-Location'' = ''Content-Location''"
    "CanonicalHeaderKey ''Date'' = ''Date''" "CanonicalHeaderKey ''ETag'' = ''Etag''"
    "CanonicalHeaderKey ''Expires'' = ''Expires''"
    by code_simp+
  show ?thesis
    by (simp add: ServeHTTP_def exampleSigner_def exampleNotModified_def exampleRequest_def
      newResponse_def FormValue_def WriteHeader_def Let_def sentHeader_def sentStatus_def
      statusNotModifiedHeaders_def GetJoined_def Header_Add_def Header_Set_def c)
qed

text \<open>
  Claim C7 (every response carries \<^verbatim>\<open>Vary: Accept, AMP-Cache-Transform\<close>) does not hold
  of the code: \<^verbatim>\<open>proxyImpl\<close> assigns the upstream header values over the entry that
  \<^verbatim>\<open>ServeHTTP\<close> added first. Here the upstream 404 carries
  \<^verbatim>\<open>Vary: Accept-Encoding\<close>, and that is all the response has under \<^verbatim>\<open>Vary\<close>.
\<close>

theorem vary_replaced_by_upstream:
  "sentStatus (ServeHTTP (exampleSigner exampleNotFound 604800) newResponse exampleRequest) = Some 404
   \<and> Header exampleNotFound ''Vary'' = Some [''Accept-Encoding'']
   \<and> sentHeader (ServeHTTP (exampleSigner exampleNotFound 604800) newResponse exampleRequest) ''Vary''
       = Some [''Accept-Encoding'']"
  by (simp add: ServeHTTP_def exampleSigner_def exampleNotFound_def exampleRequest_def
      newResponse_def FormValue_def proxyUnconsumed_def proxyImpl_def WriteHeader_def ioCopy_def
      Write_def Let_def sentHeader_def sentStatus_def)

lemma path_form:
  assumes "Params req ''signURL'' = Some sign" and "sign \<noteq> ''''"
  shows "ServeHTTP this resp (req\<lparr>Form := form\<rparr>) = ServeHTTP this resp req"
  using assms
  by (cases "parseFormError req")
     (simp_all add: ServeHTTP_def Let_def split del: if_split
        cong: if_cong sum.case_cong option.case_cong prod.case_cong)

lemma form_400:
  assumes "parseFormError req = None"
    and "Params req ''signURL'' = None \<or> Params req ''signURL'' = Some ''''"
    and "1 < length (Form req ''fetch'')"
    and "rwWritten resp = None"
  shows "sentStatus (ServeHTTP this resp req) = Some 400"
  using assms(2)
proof
  assume "Params req ''signURL'' = None"
  then show ?thesis
    using assms(1,3,4)
    by (simp add: ServeHTTP_def Let_def LogAndRespond_def NewHTTPError_def WriteHeader_def
      Write_def sentStatus_def split del: if_split cong: if_cong)
next
  assume "Params req ''signURL'' = Some ''''"
  then show ?thesis
    using assms(1,3,4)
    by (simp add: ServeHTTP_def Let_def LogAndRespond_def NewHTTPError_def WriteHeader_def
      Write_def sentStatus_def split del: if_split cong: if_cong)
qed

text \<open>
  Claim C8, as amended. When routing supplies the sign URL as a path parameter, the form
  is not looked at: the handler does the same whatever the form holds, so any number of
  \<^verbatim>\<open>fetch\<close> values is tolerated. Without the path parameter, more than one \<^verbatim>\<open>fetch\<close>
  value is answered with status 400.
\<close>

theorem path_parameter_ignores_form:
  "(Params req ''signURL'' = Some sign \<and> sign \<noteq> '''' \<longrightarrow>
      ServeHTTP this resp (req\<lparr>Form := form\<rparr>) = ServeHTTP this resp req)
   \<and> (parseFormError req = None \<and>
       (Params req ''signURL'' = None \<or> Params req ''signURL'' = Some '''') \<and>
       1 < length (Form req ''fetch'') \<and> rwWritten resp = None \<longrightarrow>
      sentStatus (ServeHTTP this resp req) = Some 400)"
  using path_form form_400 by blast

section \<open>Examples\<close>

text \<open>
  The example document carries a cookie; the exchange signed for it has none.
\<close>

theorem signed_exchange_no_stateful_header_witness:
  "SXG (exampleExchange 604800) \<in>
     set (rwBody (ServeHTTP (exampleSigner exampleDocument 604800) newResponse exampleRequest))
   \<and> Header exampleDocument ''Set-Cookie'' = Some [''x=1'']
   \<and> ResponseHeaders (exampleExchange 604800) (CanonicalHeaderKey ''Set-Cookie'') = None
   \<and> Header_Get (ResponseHeaders (exampleExchange 604800)) ''Set-Cookie'' = ''''"
proof -
  have a: "SXG (exampleExchange 604800) \<in>
     set (rwBody (ServeHTTP (exampleSigner exampleDocument 604800) newResponse exampleRequest))"
    by (simp add: example_ServeHTTP)
  have b: "SXG (exampleExchange 604800) \<notin> set (rwBody newResponse)"
    by (simp add: newResponse_def)
  have c: "''Set-Cookie'' \<in> set statefulResponseHeaders"
    by (simp add: statefulResponseHeaders_def)
  show ?thesis
    using signed_exchange_no_stateful_header [OF a b c] a
    by (simp add: exampleDocument_def)
qed

lemma example_serveSignedExchange:
  "rwBody (serveSignedExchange (exampleSigner exampleDocument 604800) newResponse
     \<lparr>body = ''<html amp></html>'', consumedStatusCode = 200,
      consumedHeader = Header exampleDocument\<rparr>
     \<lparr>signURL = URL ''https://example.com/amp.html'', ampCacheTransformHeader = '''',
      transformVersion = 1\<rparr>) = [SXG (exampleExchange 604800)]"
  by (simp add: serveSignedExchange_def exampleSigner_def Let_def getTransformerRequest_def
      formatLinkHeader_def MiEncodePayload_def NewExchange_def Time_Add_day sint_signatureDuration
      Time_Add_def [of _ "signatureDuration m" for m] exampleExchange_def newResponse_def
      Write_def WriteHeader_def)

text \<open>
  With \<open>now\<close> at 1700000000 seconds and a max-age of seven days the signature runs from
  1699913600 to 1700518400 seconds; with a max-age of one hour nothing is signed.
\<close>

theorem signature_validity_window_witness:
  "SXG (exampleExchange 604800) \<in>
     set (rwBody (serveSignedExchange (exampleSigner exampleDocument 604800) newResponse
       \<lparr>body = ''<html amp></html>'', consumedStatusCode = 200,
        consumedHeader = Header exampleDocument\<rparr>
       \<lparr>signURL = URL ''https://example.com/amp.html'', ampCacheTransformHeader = '''',
        transformVersion = 1\<rparr>))
   \<and> (\<exists>s. Signature (exampleExchange 604800) = Some s
          \<and> Date s = 1699913600000000000 \<and> Expires s = 1700518400000000000)
   \<and> (\<exists>h. serveSignedExchange (exampleSigner exampleDocument 3600) newResponse
         \<lparr>body = ''<html amp></html>'', consumedStatusCode = 200,
          consumedHeader = Header exampleDocument\<rparr>
         \<lparr>signURL = URL ''https://example.com/amp.html'', ampCacheTransformHeader = '''',
          transformVersion = 1\<rparr> =
         proxyConsumed newResponse
           \<lparr>body = ''<html amp></html>'', consumedStatusCode = 200, consumedHeader = h\<rparr>)"
proof -
  let ?F = "\<lparr>body = ''<html amp></html>'', consumedStatusCode = 200,
             consumedHeader = Header exampleDocument\<rparr>"
  let ?P = "\<lparr>signURL = URL ''https://example.com/amp.html'', ampCacheTransformHeader = '''',
             transformVersion = 1\<rparr>"
  have p: "Process (exampleSigner exampleDocument maxAge)
             ((getTransformerRequest (exampleSigner exampleDocument maxAge) (body ?F)
                 (url_String (signURL ?P)))
                \<lparr>TransformVersion := transformVersion ?P\<rparr>) =
           Inr (''<html amp></html>'', \<lparr>Preloads = [], MaxAgeSecs = maxAge\<rparr>)" for maxAge
    by (simp add: exampleSigner_def getTransformerRequest_def)
  have a: "SXG (exampleExchange 604800) \<in>
      set (rwBody (serveSignedExchange (exampleSigner exampleDocument 604800) newResponse ?F ?P))"
    by (simp add: example_serveSignedExchange)
  have b: "SXG (exampleExchange 604800) \<notin> set (rwBody newResponse)"
    by (simp add: newResponse_def)
  have now: "timeNow (exampleSigner exampleDocument maxAge) = 1700000000000000000" for maxAge
    by (simp add: exampleSigner_def)
  show ?thesis
    using signature_validity_window [OF p, of 604800 newResponse]
      signature_validity_window [OF p, of 3600 newResponse] a b
    by (simp add: now exampleExchange_def)
qed

text \<open>A body of exactly \<^verbatim>\<open>maxSignableBodyLength\<close> bytes is proxied in full.\<close>

theorem oversized_body_is_proxied_witness:
  "bodyBytes (rwBody (consumeAndSign (exampleSigner exampleDocument 604800) newResponse
     (exampleDocument\<lparr>Body := \<lparr>pending = replicate maxSignableBodyLength (CHR ''a''),
                                  broken = False\<rparr>\<rparr>)
     \<lparr>signURL = URL ''https://example.com/amp.html'', ampCacheTransformHeader = '''',
      transformVersion = 1\<rparr>)) = replicate maxSignableBodyLength (CHR ''a'')
   \<and> sentStatus (consumeAndSign (exampleSigner exampleDocument 604800) newResponse
     (exampleDocument\<lparr>Body := \<lparr>pending = replicate maxSignableBodyLength (CHR ''a''),
                                  broken = False\<rparr>\<rparr>)
     \<lparr>signURL = URL ''https://example.com/amp.html'', ampCacheTransformHeader = '''',
      transformVersion = 1\<rparr>) = Some 200
   \<and> promSigned (consumeAndSign (exampleSigner exampleDocument 604800) newResponse
     (exampleDocument\<lparr>Body := \<lparr>pending = replicate maxSignableBodyLength (CHR ''a''),
                                  broken = False\<rparr>\<rparr>)
     \<lparr>signURL = URL ''https://example.com/amp.html'', ampCacheTransformHeader = '''',
      transformVersion = 1\<rparr>) = 0"
proof -
  let ?D = "exampleDocument\<lparr>Body := \<lparr>pending = replicate maxSignableBodyLength (CHR ''a''),
                                        broken = False\<rparr>\<rparr>"
  have a: "maxSignableBodyLength \<le> length (pending (Body ?D))"
    by simp
  have b: "\<not> broken (Body ?D)"
    by simp
  have c: "rwWritten newResponse = None"
    by (simp add: newResponse_def)
  show ?thesis
    using oversized_body_is_proxied [OF a b c]
    by (simp add: newResponse_def exampleDocument_def)
qed

text \<open>The example 304 is passed on with its \<^verbatim>\<open>ETag\<close>.\<close>

theorem not_modified_headers_witness:
  "sentStatus (ServeHTTP (exampleSigner exampleNotModified 604800) newResponse exampleRequest) = Some 304
   \<and> rwBody (ServeHTTP (exampleSigner exampleNotModified 604800) newResponse exampleRequest) = []
   \<and> sentHeader (ServeHTTP (exampleSigner exampleNotModified 604800) newResponse exampleRequest)
        ''Etag'' = Some [''abc'']"
proof -
  let ?sign = "''https://example.com/amp.html''"
  let ?S = "exampleSigner exampleNotModified 604800"
  have facts:
    "parseFormError exampleRequest = None"
    "Params exampleRequest ''signURL'' = Some ?sign \<and> ?sign \<noteq> '''' \<and> '''' = '''' \<or>
       (Params exampleRequest ''signURL'' = None \<or> Params exampleRequest ''signURL'' = Some '''') \<and>
       Form exampleRequest ''sign'' = [?sign] \<and>
       (Form exampleRequest ''fetch'' = [] \<and> '''' = '''' \<or> Form exampleRequest ''fetch'' = [''''])"
    "parseURLs ?S '''' ?sign = Inr (URL ?sign, URL ?sign, False)"
    "fetchURLAndMeasure ?S (URL ?sign) (Host exampleRequest)
       (Proto exampleRequest) (reqHeader exampleRequest) =
       Inr (\<lparr>fetchedURL = URL ?sign, fetchHost = Host exampleRequest, fetchHeader = Map.empty\<rparr>,
            exampleNotModified)"
    "shouldPackage ?S = None"
    "if requireHeaders ?S
       then ShouldSendSXG ?S (GetJoined (reqHeader exampleRequest) ''AMP-Cache-Transform'') = ('''', 1) \<and>
            '''' \<noteq> '''' \<and> CanSatisfy ?S (GetJoined (reqHeader exampleRequest) ''Accept'')
       else SelectVersion ?S = Inr 1 \<and> '''' = ''''"
    "StatusCode exampleNotModified = 304"
    by (simp_all add: exampleSigner_def exampleRequest_def exampleNotModified_def)
  have e: "CanonicalHeaderKey ''ETag'' = ''Etag''"
    by code_simp
  have g: "GetJoined (Header exampleNotModified) ''ETag'' = ''abc''"
    by (simp add: GetJoined_def e exampleNotModified_def)
  have n: "''ETag'' \<in> set statusNotModifiedHeaders"
    by (simp add: statusNotModifiedHeaders_def)
  show ?thesis
    using not_modified_headers [OF facts] n g e
    by auto
qed

text \<open>
  Read through \<^verbatim>\<open>Get\<close>, the \<^verbatim>\<open>Vary\<close> of that response is the upstream value.
\<close>

theorem vary_replaced_by_upstream_witness:
  "Header_Get
     (sentHeader (ServeHTTP (exampleSigner exampleNotFound 604800) newResponse exampleRequest))
     ''Vary'' = ''Accept-Encoding''"
proof -
  have c: "CanonicalHeaderKey ''Vary'' = ''Vary''"
    by code_simp
  show ?thesis
    using vary_replaced_by_upstream by (simp add: Header_Get_def c)
qed

text \<open>
  Claim C8 as it was stated fails: a request with the path parameter and two \<^verbatim>\<open>fetch\<close>
  form values is signed, not refused.
\<close>

theorem path_parameter_counterexample:
  "Params examplePathRequest ''signURL'' = Some ''https://example.com/amp.html''
   \<and> length (Form examplePathRequest ''fetch'') = 2
   \<and> sentStatus (ServeHTTP (exampleSigner exampleDocument 604800) newResponse examplePathRequest)
       = Some 200
   \<and> rwBody (ServeHTTP (exampleSigner exampleDocument 604800) newResponse examplePathRequest)
       = [SXG (exampleExchange 604800)]"
  by (simp add: example_ServeHTTP sentStatus_def examplePathRequest_def)

text \<open>
  The request with the path parameter is served the same without its form values; without
  the path parameter its two \<^verbatim>\<open>fetch\<close> values are refused.
\<close>

theorem path_parameter_ignores_form_witness:
  "ServeHTTP (exampleSigner exampleDocument 604800) newResponse
     (examplePathRequest\<lparr>Form := \<lambda>key. []\<rparr>) =
   ServeHTTP (exampleSigner exampleDocument 604800) newResponse examplePathRequest
   \<and> sentStatus (ServeHTTP (exampleSigner exampleDocument 604800) newResponse
        (examplePathRequest\<lparr>Params := Map.empty\<rparr>)) = Some 400"
  using path_parameter_ignores_form
      [of examplePathRequest "''https://example.com/amp.html''"
          "exampleSigner exampleDocument 604800" newResponse "\<lambda>key. []"]
    path_parameter_ignores_form
      [of "examplePathRequest\<lparr>Params := Map.empty\<rparr>" "''''"
          "exampleSigner exampleDocument 604800" newResponse "\<lambda>key. []"]
  by (simp add: examplePathRequest_def newResponse_def)

end
